theory Spec2Isabelle
  imports Main
begin

section \<open>JavaScript string operations used by the voice front end\<close>

text \<open>
  Utterances are modelled as \<^typ>\<open>string\<close>. The recogniser is configured with
  \<^verbatim>\<open>lang = 'en-US'\<close>; the case maps below act on the ASCII letters and carry
  every other character through unchanged, and white space is the ASCII white space
  that \<^verbatim>\<open>trim()\<close> and the regular expression class \<^verbatim>\<open>\s\<close> recognise.
\<close>

definition toLowerCase_char :: "char \<Rightarrow> char" where
  "toLowerCase_char c =
     (let n = (of_char c :: nat) in if 65 \<le> n \<and> n \<le> 90 then char_of (n + 32) else c)"

definition toUpperCase_char :: "char \<Rightarrow> char" where
  "toUpperCase_char c =
     (let n = (of_char c :: nat) in if 97 \<le> n \<and> n \<le> 122 then char_of (n - 32) else c)"

definition toLowerCase :: "string \<Rightarrow> string" where
  "toLowerCase s = map toLowerCase_char s"

definition toUpperCase :: "string \<Rightarrow> string" where
  "toUpperCase s = map toUpperCase_char s"

definition isSpace :: "char \<Rightarrow> bool" where
  "isSpace c = (let n = (of_char c :: nat) in n = 32 \<or> (9 \<le> n \<and> n \<le> 13))"

definition trim :: "string \<Rightarrow> string" where
  "trim s = rev (dropWhile isSpace (rev (dropWhile isSpace s)))"

definition startsWith :: "string \<Rightarrow> string \<Rightarrow> bool" where
  "startsWith s p = (take (length p) s = p)"

definition endsWith :: "string \<Rightarrow> string \<Rightarrow> bool" where
  "endsWith s p = (length p \<le> length s \<and> drop (length s - length p) s = p)"

fun includesStr :: "string \<Rightarrow> string \<Rightarrow> bool" where
  "includesStr [] p = (p = [])"
| "includesStr (c # cs) p = (startsWith (c # cs) p \<or> includesStr cs p)"

text \<open>\<^verbatim>\<open>s.replace(p, r)\<close> with a string pattern: the first occurrence only.\<close>

fun replaceFirst :: "string \<Rightarrow> string \<Rightarrow> string \<Rightarrow> string" where
  "replaceFirst [] p r = (if p = [] then r else [])"
| "replaceFirst (c # cs) p r =
     (if startsWith (c # cs) p then r @ drop (length p) (c # cs)
      else c # replaceFirst cs p r)"

text \<open>
  \<^verbatim>\<open>s.replace(new RegExp(escaped, 'g'), r)\<close> for a non-empty literal pattern: every
  occurrence, scanning from the left, matches never overlapping. The counter is the
  number of characters of the current match that are still to be skipped.
\<close>

fun replaceAllFrom :: "nat \<Rightarrow> string \<Rightarrow> string \<Rightarrow> string \<Rightarrow> string" where
  "replaceAllFrom k [] p r = []"
| "replaceAllFrom (Suc k) (c # cs) p r = replaceAllFrom k cs p r"
| "replaceAllFrom 0 (c # cs) p r =
     (if startsWith (c # cs) p then r @ replaceAllFrom (length p - 1) cs p r
      else c # replaceAllFrom 0 cs p r)"

definition replaceAll :: "string \<Rightarrow> string \<Rightarrow> string \<Rightarrow> string" where
  "replaceAll s p r = replaceAllFrom 0 s p r"

text \<open>\<^verbatim>\<open>s.replace(/stats?/g, '')\<close>: the optional \<^verbatim>\<open>s\<close> is greedy.\<close>

fun removeStatsFrom :: "nat \<Rightarrow> string \<Rightarrow> string" where
  "removeStatsFrom k [] = []"
| "removeStatsFrom (Suc k) (c # cs) = removeStatsFrom k cs"
| "removeStatsFrom 0 (c # cs) =
     (if startsWith (c # cs) ''stats'' then removeStatsFrom 4 cs
      else if startsWith (c # cs) ''stat'' then removeStatsFrom 3 cs
      else c # removeStatsFrom 0 cs)"

definition removeStats :: "string \<Rightarrow> string" where
  "removeStats s = removeStatsFrom 0 s"

text \<open>\<^verbatim>\<open>s.replace(/\s+/g, ' ')\<close>: each run of white space becomes one blank.
  The flag says that the previous character belonged to such a run.\<close>

fun collapseFrom :: "bool \<Rightarrow> string \<Rightarrow> string" where
  "collapseFrom inRun [] = []"
| "collapseFrom inRun (c # cs) =
     (if isSpace c then (if inRun then collapseFrom True cs else CHR '' '' # collapseFrom True cs)
      else c # collapseFrom False cs)"

definition collapseSpaces :: "string \<Rightarrow> string" where
  "collapseSpaces s = collapseFrom False s"

text \<open>
  \<^verbatim>\<open>s.split(sep)\<close> for a non-empty separator: the pieces between the occurrences of
  the separator, always at least one piece. The accumulator holds the current piece
  reversed.
\<close>

fun splitFrom :: "nat \<Rightarrow> string \<Rightarrow> string \<Rightarrow> string \<Rightarrow> string list" where
  "splitFrom k acc [] sep = [rev acc]"
| "splitFrom (Suc k) acc (c # cs) sep = splitFrom k acc cs sep"
| "splitFrom 0 acc (c # cs) sep =
     (if startsWith (c # cs) sep then rev acc # splitFrom (length sep - 1) [] cs sep
      else splitFrom 0 (c # acc) cs sep)"

definition splitStr :: "string \<Rightarrow> string \<Rightarrow> string list" where
  "splitStr s sep = splitFrom 0 [] s sep"

text \<open>The \<^verbatim>\<open>forEach\<close> loops that strip leading and trailing words, in list order.\<close>

definition stripPrefixes :: "string list \<Rightarrow> string \<Rightarrow> string" where
  "stripPrefixes prefixes s =
     fold (\<lambda>prefix name. if startsWith name prefix then trim (drop (length prefix) name) else name)
       prefixes s"

definition stripSuffixes :: "string list \<Rightarrow> string \<Rightarrow> string" where
  "stripSuffixes suffixes s =
     fold (\<lambda>suffix name.
             if endsWith name suffix then trim (take (length name - length suffix) name) else name)
       suffixes s"

text \<open>\<^verbatim>\<open>a || b\<close> on strings: the empty string is falsy.\<close>

definition orElse :: "string \<Rightarrow> string \<Rightarrow> string" where
  "orElse a b = (if a = [] then b else a)"

section \<open>The intent parser (\<^verbatim>\<open>parseVoiceCommandLocal\<close>)\<close>

datatype action =
    search_player | compare_players | club_achievements | club_info | show_favorites
  | add_player_favorite | add_club_favorite
  | add_current_player_favorite | add_current_club_favorite
  | remove_player_favorite | remove_club_favorite
  | read_injuries | read_transfers | read_achievements | read_market_value
  | stop_speaking | resume_speaking
  | other_action

record intent =
  action :: action
  playerName :: "string option"
  playerName2 :: "string option"
  clubName :: "string option"

definition justAction :: "action \<Rightarrow> intent" where
  "justAction a = \<lparr>action = a, playerName = None, playerName2 = None, clubName = None\<rparr>"

definition extractNameFromCommand :: "string \<Rightarrow> string list \<Rightarrow> string" where
  "extractNameFromCommand commandLower wordsToRemove =
     trim (collapseSpaces (fold (\<lambda>word name. replaceAll name word '' '') wordsToRemove commandLower))"

text \<open>
  Each block of the source that ends in \<^verbatim>\<open>return\<close> is one rule; \<open>None\<close> means the
  block did not return and control falls through to the next block.
\<close>

definition ruleStopResume :: "string \<Rightarrow> intent option" where
  "ruleStopResume commandLower =
     (if commandLower = ''stop'' \<or> startsWith commandLower ''stop '' \<or>
         includesStr commandLower ''stop talking'' \<or> includesStr commandLower ''stop reading'' \<or>
         includesStr commandLower ''be quiet'' \<or> includesStr commandLower ''shut up'' \<or>
         includesStr commandLower ''quiet''
      then Some (justAction stop_speaking)
      else if includesStr commandLower ''resume talking'' \<or> includesStr commandLower ''start talking'' \<or>
              includesStr commandLower ''start reading''
      then Some (justAction resume_speaking)
      else None)"

definition ruleReadSection :: "string \<Rightarrow> intent option" where
  "ruleReadSection commandLower =
     (if includesStr commandLower ''tell me'' \<or> includesStr commandLower ''read'' \<or>
         includesStr commandLower ''show me''
      then
        (if includesStr commandLower ''injuries'' \<or> includesStr commandLower ''injury''
         then Some (justAction read_injuries)
         else if includesStr commandLower ''transfers'' \<or> includesStr commandLower ''transfer''
         then Some (justAction read_transfers)
         else if includesStr commandLower ''achievements'' \<or> includesStr commandLower ''achievement'' \<or>
                 includesStr commandLower ''honors'' \<or> includesStr commandLower ''honours''
         then Some (justAction read_achievements)
         else if includesStr commandLower ''market value'' \<or>
                 includesStr commandLower ''market value history''
         then Some (justAction read_market_value)
         else None)
      else None)"

definition ruleShowFavorites :: "string \<Rightarrow> intent option" where
  "ruleShowFavorites commandLower =
     (if (includesStr commandLower ''show'' \<or> includesStr commandLower ''open'' \<or>
          includesStr commandLower ''go to'') \<and>
         (includesStr commandLower ''favorite'' \<or> includesStr commandLower ''favourite'')
      then Some (justAction show_favorites)
      else None)"

definition ruleQuickFavorite :: "string \<Rightarrow> intent option" where
  "ruleQuickFavorite commandLower =
     (if startsWith commandLower ''favorite '' \<and> \<not> includesStr commandLower ''show favorite''
      then
        (let isClub = (includesStr commandLower ''club'' \<or> includesStr commandLower ''team'');
             name = extractNameFromCommand commandLower
                      [''favorite'', ''club'', ''team'', ''player'', ''the'']
         in if isClub
            then Some ((justAction add_club_favorite)\<lparr>clubName := Some (orElse name commandLower)\<rparr>)
            else Some ((justAction add_player_favorite)
                         \<lparr>playerName := Some (orElse name commandLower)\<rparr>))
      else None)"

definition ruleAddFavorite :: "string \<Rightarrow> intent option" where
  "ruleAddFavorite commandLower =
     (if includesStr commandLower ''add'' \<and>
         (includesStr commandLower ''favorite'' \<or> includesStr commandLower ''favourite'')
      then
        (if includesStr commandLower ''this club'' then Some (justAction add_current_club_favorite)
         else if includesStr commandLower ''this player''
         then Some (justAction add_current_player_favorite)
         else
           (let isClub = (includesStr commandLower ''club'' \<or> includesStr commandLower ''team'');
                name = extractNameFromCommand commandLower
                         [''add'', ''to favorites'', ''favorites'', ''favorite'', ''favourite'',
                          ''club'', ''team'', ''player'', ''the'']
            in if isClub
               then Some ((justAction add_club_favorite)
                            \<lparr>clubName := Some (orElse name commandLower)\<rparr>)
               else Some ((justAction add_player_favorite)
                            \<lparr>playerName := Some (orElse name commandLower)\<rparr>)))
      else None)"

definition ruleRemoveFavorite :: "string \<Rightarrow> intent option" where
  "ruleRemoveFavorite commandLower =
     (if includesStr commandLower ''remove'' \<and>
         (includesStr commandLower ''favorite'' \<or> includesStr commandLower ''favourite'')
      then
        (let isClub = (includesStr commandLower ''club'' \<or> includesStr commandLower ''team'')
         in if includesStr commandLower ''this club''
            then Some ((justAction remove_club_favorite)\<lparr>clubName := Some ''this''\<rparr>)
            else if includesStr commandLower ''this player''
            then Some ((justAction remove_player_favorite)\<lparr>playerName := Some ''this''\<rparr>)
            else
              (let name = extractNameFromCommand commandLower
                            [''remove'', ''from favorites'', ''favorites'', ''favorite'',
                             ''favourite'', ''club'', ''team'', ''player'', ''the'']
               in if isClub
                  then Some ((justAction remove_club_favorite)
                               \<lparr>clubName := Some (orElse name commandLower)\<rparr>)
                  else Some ((justAction remove_player_favorite)
                               \<lparr>playerName := Some (orElse name commandLower)\<rparr>)))
      else None)"

definition ruleCompare :: "string \<Rightarrow> intent option" where
  "ruleCompare commandLower =
     (if includesStr commandLower ''compare'' \<or> includesStr commandLower '' vs '' \<or>
         includesStr commandLower '' versus ''
      then
        (let cleaned = replaceFirst (replaceFirst (replaceFirst commandLower ''compare'' '''')
                                       ''versus'' '' '') '' vs '' '' '';
             parts = splitStr cleaned '' and ''
         in case parts of
              p0 # p1 # rest \<Rightarrow>
                Some ((justAction compare_players)
                        \<lparr>playerName := Some (trim (removeStats (trim p0))),
                         playerName2 := Some (trim (removeStats (trim p1)))\<rparr>)
            | _ \<Rightarrow> None)
      else None)"

definition clubKeywords :: "string list" where
  "clubKeywords = [''club'', ''fc'', ''united'', ''city'', ''arsenal'', ''chelsea'', ''liverpool'',
                   ''manchester'', ''barcelona'', ''real madrid'', ''psg'', ''bayern'', ''juventus'']"

definition ruleClubInfo :: "string \<Rightarrow> intent option" where
  "ruleClubInfo commandLower =
     (if list_ex (\<lambda>keyword. includesStr commandLower keyword) clubKeywords \<and>
         \<not> includesStr commandLower ''stats'' \<and> \<not> includesStr commandLower ''statistics''
      then
        (let clubName0 = stripPrefixes [''show'', ''display'', ''get'', ''find'', ''club'', ''info'',
                                        ''information'', ''achievements'', ''team''] commandLower;
             clubName1 = trim (removeStats clubName0)
         in if clubName1 \<noteq> []
            then Some ((justAction club_achievements)\<lparr>clubName := Some clubName1\<rparr>)
            else None)
      else None)"

definition rulePlayerStats :: "string \<Rightarrow> intent option" where
  "rulePlayerStats commandLower =
     (if includesStr commandLower ''stats'' \<or> includesStr commandLower ''statistics'' \<or>
         includesStr commandLower ''stat''
      then
        (let (playerPart0, clubPart) =
               (if includesStr commandLower '' for ''
                then (case splitStr commandLower '' for '' of
                        p0 # p1 # rest \<Rightarrow> (p0, Some (trim p1))
                      | _ \<Rightarrow> (commandLower, None))
                else (commandLower, None));
             playerPart1 = stripPrefixes [''show me'', ''show'', ''find'', ''get'', ''search for'',
                                          ''stats for'', ''statistics for'', ''display''] playerPart0;
             playerPart2 = stripSuffixes ['' stats'', '' statistics'', '' stat''] playerPart1
         in if playerPart2 \<noteq> []
            then Some ((justAction search_player)
                         \<lparr>playerName := Some playerPart2,
                          clubName := (case clubPart of
                                         None \<Rightarrow> None
                                       | Some c \<Rightarrow> if c = [] then None else Some (toUpperCase c))\<rparr>)
            else None)
      else None)"

definition ruleDefault :: "string \<Rightarrow> string \<Rightarrow> intent" where
  "ruleDefault command commandLower =
     (let cleaned = stripPrefixes [''show me'', ''show'', ''find'', ''get'', ''search for'',
                                   ''display''] commandLower
      in if cleaned \<noteq> []
         then (justAction search_player)\<lparr>playerName := Some cleaned\<rparr>
         else (justAction search_player)\<lparr>playerName := Some command\<rparr>)"

definition firstMatch :: "(string \<Rightarrow> intent option) list \<Rightarrow> string \<Rightarrow> intent option" where
  "firstMatch rules commandLower =
     fold (\<lambda>rule found. case found of Some i \<Rightarrow> Some i | None \<Rightarrow> rule commandLower) rules None"

definition parseVoiceCommandLocal :: "string \<Rightarrow> intent" where
  "parseVoiceCommandLocal command =
     (let commandLower = trim (toLowerCase command)
      in case firstMatch [ruleStopResume, ruleReadSection, ruleShowFavorites, ruleQuickFavorite,
                          ruleAddFavorite, ruleRemoveFavorite, ruleCompare, ruleClubInfo,
                          rulePlayerStats] commandLower of
           Some i \<Rightarrow> i
         | None \<Rightarrow> ruleDefault command commandLower)"

section \<open>The speech channel: state, timers and the engines' interfaces\<close>

text \<open>
  The state is the set of module-level variables of \<^verbatim>\<open>app.js\<close> that the speech code
  reads or writes, the fields of \<^verbatim>\<open>TTSManager\<close>, the pending \<^verbatim>\<open>setTimeout\<close>
  callbacks, and a log of the calls made to the two browser engines
  (\<^verbatim>\<open>window.speechSynthesis\<close> and the \<^verbatim>\<open>SpeechRecognition\<close> object). Page rendering,
  status messages, navigation and the favourites store write none of these variables and
  are left out; the page elements that the handlers write to are taken to exist, so that
  rendering raises nothing. JavaScript runs every handler to completion, so each handler, and each
  stretch of an \<^verbatim>\<open>async\<close> function between two \<^verbatim>\<open>await\<close>s, is one state
  transformer.

  The text of a narration is either a literal of the source or one of the reports that
  the source builds from lookup data; every report starts with a fixed sentence, so it is
  never blank.
\<close>

datatype narration =
    Text string
  | PlayerStatsReport | ClubInfoReport | ComparisonReport | FavoritesReport
  | InjuryReport | TransferReport | AchievementsReport | MarketValueReport

definition isEmptyText :: "narration \<Rightarrow> bool" where
  "isEmptyText t = (case t of Text s \<Rightarrow> trim s = [] | _ \<Rightarrow> False)"

text \<open>
  A section of a lookup result (\<^verbatim>\<open>searchResults.injuries\<close> and its siblings) is
  absent (\<^verbatim>\<open>null\<close>) or an object whose list is missing (\<open>None\<close>) or has some
  number of entries. A stored result always has its player: \<^verbatim>\<open>searchPlayerStats\<close>
  stores a result only after it has read the player's \<^verbatim>\<open>id\<close>.
\<close>

type_synonym sectionData = "nat option"

record results =
  transfers :: "sectionData option"
  injuries :: "sectionData option"
  achievements :: "sectionData option"
  marketValue :: "sectionData option"

datatype timerCallback =
    ImmediateStartCb
  | RetryImmediateCb
  | ImmediateSafeStartCb
  | StartOnInteractionCb
  | AutoStartCb
  | RestartAfterNoSpeechCb
  | RestartAfterEndCb
  | RestartAfterSpeechCb
  | ReadResultsCb
  | DisplayReadResultsCb
  | ReadComparisonCb
  | ReadClubInfoCb
  | ReadFavoritesCb nat
  | SpeakCb narration

datatype timer = Timer (timerId: nat) (delay: nat) (callback: timerCallback)

datatype synthCall = SynthSpeak narration | SynthCancel

datatype recCall = RecStart | RecStop

record state =
  isRecording :: bool
  recognition :: bool
  currentSpeech :: "narration option"
  searchResults :: "results option"
  autoListening :: bool
  ttsMuted :: bool
  userInteracted :: bool
  isReadingAloud :: bool
  isRecognitionStarting :: bool
  isRecognitionStopping :: bool
  restartTimeout :: "nat option"
  isActive :: bool
  queue :: "narration list"
  currentUtterance :: "narration option"
  hasSpeechSynthesis :: bool
  timers :: "timer list"
  nextTimer :: nat
  synthCalls :: "synthCall list"
  recCalls :: "recCall list"

text \<open>
  \<open>recognition\<close> says that the recognition object exists (it is \<^verbatim>\<open>null\<close> in a
  browser without speech recognition), \<open>hasSpeechSynthesis\<close> that
  \<^verbatim>\<open>'speechSynthesis' in window\<close> holds; \<open>isActive\<close>, \<open>queue\<close> and
  \<open>currentUtterance\<close> are the fields of \<^verbatim>\<open>TTSManager\<close>.

  What the browser answers when the code calls it is an input of the handler.
\<close>

datatype startOutcome = Started | AlreadyStarted | StartFailed

datatype favoritesOutcome = FavoritesList nat | FavoritesThrows string

record env =
  startOutcome :: startOutcome
  stopThrows :: bool
  speakThrows :: bool
  speaking :: bool
  favoritesOutcome :: favoritesOutcome

datatype permissionOutcome =
  PermissionGranted | PermissionNotAllowed | PermissionNotFound | PermissionOtherError

datatype remoteResponse = RemoteIntent intent | RemoteUnavailable | RemoteMalformed

datatype searchOutcome = SearchSucceeded results | NoPlayersFound string | SearchFailed string

definition initialState :: "bool \<Rightarrow> bool \<Rightarrow> state" where
  "initialState hasRecognition hasSynthesis =
     \<lparr>isRecording = False, recognition = hasRecognition, currentSpeech = None,
      searchResults = None, autoListening = False, ttsMuted = False, userInteracted = False,
      isReadingAloud = False, isRecognitionStarting = False, isRecognitionStopping = False,
      restartTimeout = None, isActive = False, queue = [], currentUtterance = None,
      hasSpeechSynthesis = hasSynthesis,
      timers = [Timer 1 1000 ImmediateStartCb], nextTimer = 2,
      synthCalls = [], recCalls = []\<rparr>"

subsection \<open>Timers\<close>

text \<open>
  \<^verbatim>\<open>setTimeout\<close> returns a fresh positive handle; the handle of the timer that
  \<open>setTimeout cb d s\<close> adds is \<open>nextTimer s\<close>. \<^verbatim>\<open>clearTimeout\<close> of a handle that is
  no longer pending does nothing.
\<close>

definition setTimeout :: "timerCallback \<Rightarrow> nat \<Rightarrow> state \<Rightarrow> state" where
  "setTimeout cb d s =
     s\<lparr>timers := timers s @ [Timer (nextTimer s) d cb], nextTimer := Suc (nextTimer s)\<rparr>"

definition clearTimeout :: "nat \<Rightarrow> state \<Rightarrow> state" where
  "clearTimeout i s = s\<lparr>timers := filter (\<lambda>t. timerId t \<noteq> i) (timers s)\<rparr>"

text \<open>
  \<^verbatim>\<open>if (restartTimeout) clearTimeout(restartTimeout); restartTimeout = setTimeout(cb, d);\<close>
\<close>

definition scheduleRestart :: "timerCallback \<Rightarrow> nat \<Rightarrow> state \<Rightarrow> state" where
  "scheduleRestart cb d s =
     (let s1 = (case restartTimeout s of
                  None \<Rightarrow> s
                | Some i \<Rightarrow> if i = 0 then s else clearTimeout i s)
      in (setTimeout cb d s1)\<lparr>restartTimeout := Some (nextTimer s1)\<rparr>)"

subsection \<open>The output controller (\<^verbatim>\<open>TTSManager\<close>, \<^verbatim>\<open>stopReading\<close>)\<close>

definition speechSynthesis_cancel :: "state \<Rightarrow> state" where
  "speechSynthesis_cancel s = s\<lparr>synthCalls := synthCalls s @ [SynthCancel]\<rparr>"

definition TTSManager_speak :: "narration \<Rightarrow> bool \<Rightarrow> state \<Rightarrow> state" where
  "TTSManager_speak txt interrupt s =
     (if ttsMuted s \<and> \<not> interrupt then s
      else if isEmptyText txt then s
      else
        (let s1 = (if \<not> userInteracted s then s\<lparr>userInteracted := True\<rparr> else s)
         in if hasSpeechSynthesis s1
            then
              (let s2 = (if interrupt \<and> currentSpeech s1 \<noteq> None
                         then speechSynthesis_cancel s1 else s1)
               in setTimeout (SpeakCb txt) (if interrupt then 100 else 0) s2)
            else s1))"

text \<open>The callback that \<^verbatim>\<open>TTSManager.speak\<close> hands to \<^verbatim>\<open>setTimeout\<close>.\<close>

definition speakCallback :: "env \<Rightarrow> narration \<Rightarrow> state \<Rightarrow> state" where
  "speakCallback e txt s =
     (if ttsMuted s \<or> \<not> userInteracted s then s
      else
        (let s1 = s\<lparr>currentUtterance := Some txt\<rparr>
         in if speakThrows e
            then s1\<lparr>isActive := False, isReadingAloud := False\<rparr>
            else s1\<lparr>synthCalls := synthCalls s1 @ [SynthSpeak txt],
                    currentSpeech := Some txt\<rparr>))"

definition stopReading :: "state \<Rightarrow> state" where
  "stopReading s =
     (if hasSpeechSynthesis s
      then (speechSynthesis_cancel s)
             \<lparr>currentSpeech := None, isReadingAloud := False, ttsMuted := True,
              isActive := False, currentUtterance := None\<rparr>
      else s)"

definition TTSManager_readError :: "string \<Rightarrow> state \<Rightarrow> state" where
  "TTSManager_readError errorMessage s =
     (if ttsMuted s then s
      else TTSManager_speak (Text (''Error: '' @ errorMessage @ ''. Please try again.'')) False s)"

definition TTSManager_readPlayerStats :: "results option \<Rightarrow> state \<Rightarrow> state" where
  "TTSManager_readPlayerStats r s =
     (case r of
        None \<Rightarrow> TTSManager_speak (Text ''No player data available to read.'') False s
      | Some d \<Rightarrow>
          if ttsMuted s then s
          else TTSManager_speak PlayerStatsReport True
                 (if \<not> userInteracted s then s\<lparr>userInteracted := True\<rparr> else s))"

text \<open>
  \<^verbatim>\<open>readClubInfo\<close> and \<^verbatim>\<open>readComparison\<close> are only called with the entities that
  the lookup has just dereferenced, so their "no data" branches are not reachable.
\<close>

definition TTSManager_readClubInfo :: "state \<Rightarrow> state" where
  "TTSManager_readClubInfo s =
     (if ttsMuted s \<or> \<not> userInteracted s then s else TTSManager_speak ClubInfoReport True s)"

definition TTSManager_readComparison :: "state \<Rightarrow> state" where
  "TTSManager_readComparison s =
     (if ttsMuted s \<or> \<not> userInteracted s then s
      else TTSManager_speak ComparisonReport True s)"

definition TTSManager_readFavorites :: "nat \<Rightarrow> state \<Rightarrow> state" where
  "TTSManager_readFavorites n s =
     (if ttsMuted s \<or> \<not> userInteracted s then s
      else if n = 0 then TTSManager_speak (Text ''You have no favorites saved yet.'') False s
      else TTSManager_speak FavoritesReport True s)"

definition readResultsAloud :: "env \<Rightarrow> state \<Rightarrow> state" where
  "readResultsAloud e s =
     (if isReadingAloud s \<or> (hasSpeechSynthesis s \<and> speaking e) \<or> isActive s then s
      else case searchResults s of
             None \<Rightarrow> TTSManager_speak (Text ''No results to read'') False s
           | Some r \<Rightarrow>
               if ttsMuted s then s
               else TTSManager_readPlayerStats (Some r)
                      (if \<not> userInteracted s then s\<lparr>userInteracted := True\<rparr> else s))"

definition readInjuriesAloud :: "sectionData \<Rightarrow> state \<Rightarrow> state" where
  "readInjuriesAloud injuriesData s =
     (if ttsMuted s \<or> \<not> userInteracted s then s
      else if injuriesData = None \<or> injuriesData = Some 0
      then TTSManager_speak (Text ''No injury history available for this player.'') False s
      else TTSManager_speak InjuryReport True s)"

definition readTransfersAloud :: "sectionData \<Rightarrow> state \<Rightarrow> state" where
  "readTransfersAloud transfersData s =
     (if ttsMuted s \<or> \<not> userInteracted s then s
      else if transfersData = None \<or> transfersData = Some 0
      then TTSManager_speak (Text ''No transfer history available for this player.'') False s
      else TTSManager_speak TransferReport True s)"

definition readAchievementsAloud :: "sectionData \<Rightarrow> state \<Rightarrow> state" where
  "readAchievementsAloud achievementsData s =
     (if ttsMuted s \<or> \<not> userInteracted s then s
      else if achievementsData = None \<or> achievementsData = Some 0
      then TTSManager_speak (Text ''No achievements available for this player.'') False s
      else TTSManager_speak AchievementsReport True s)"

definition readMarketValueAloud :: "sectionData \<Rightarrow> state \<Rightarrow> state" where
  "readMarketValueAloud marketValueData s =
     (if ttsMuted s \<or> \<not> userInteracted s then s
      else if marketValueData = None \<or> marketValueData = Some 0
      then TTSManager_speak (Text ''No market value history available for this player.'') False s
      else TTSManager_speak MarketValueReport True s)"

subsection \<open>The input controller\<close>

text \<open>
  \<^verbatim>\<open>safeStartRecognition\<close> returns whether recognition was started (or found running);
  the result of \<^verbatim>\<open>recognition.start()\<close> is the environment's.
\<close>

definition safeStartRecognition :: "env \<Rightarrow> state \<Rightarrow> bool \<times> state" where
  "safeStartRecognition e s =
     (if \<not> recognition s then (False, s)
      else if isRecording s \<or> isRecognitionStarting s \<or> isRecognitionStopping s then (False, s)
      else
        (let s1 = s\<lparr>isRecognitionStarting := True, recCalls := recCalls s @ [RecStart]\<rparr>
         in case startOutcome e of
              Started \<Rightarrow> (True, s1)
            | AlreadyStarted \<Rightarrow> (True, s1\<lparr>isRecognitionStarting := False, isRecording := True\<rparr>)
            | StartFailed \<Rightarrow> (False, s1\<lparr>isRecognitionStarting := False\<rparr>)))"

text \<open>The three debounced restart callbacks (after a no-speech error, after the end of a
  recognition session, after the end of a narration).\<close>

definition restartAfterNoSpeech :: "env \<Rightarrow> state \<Rightarrow> state" where
  "restartAfterNoSpeech e s =
     (if autoListening s \<and> \<not> isReadingAloud s \<and> \<not> isRecording s \<and>
         \<not> isRecognitionStarting s \<and> \<not> isRecognitionStopping s
      then snd (safeStartRecognition e s) else s)"

definition restartAfterEnd :: "env \<Rightarrow> state \<Rightarrow> state" where
  "restartAfterEnd e s =
     (if autoListening s \<and> \<not> isReadingAloud s \<and> \<not> isRecording s \<and>
         \<not> isRecognitionStarting s \<and> \<not> isRecognitionStopping s \<and> recognition s
      then snd (safeStartRecognition e s) else s)"

definition restartAfterSpeech :: "env \<Rightarrow> state \<Rightarrow> state" where
  "restartAfterSpeech e s =
     (if autoListening s \<and> \<not> isRecording s \<and> \<not> isReadingAloud s \<and>
         \<not> isRecognitionStarting s \<and> \<not> isRecognitionStopping s \<and> recognition s
      then snd (safeStartRecognition e s) else s)"

definition recognition_onstart :: "state \<Rightarrow> state" where
  "recognition_onstart s =
     s\<lparr>isRecording := True, isRecognitionStarting := False, isRecognitionStopping := False\<rparr>"

definition recognition_onerror :: "string \<Rightarrow> state \<Rightarrow> state" where
  "recognition_onerror err s =
     (let s1 = s\<lparr>isRecording := False, isRecognitionStarting := False\<rparr>
      in if err = ''aborted''
         then s1\<lparr>isRecording := False, isRecognitionStarting := False\<rparr>
         else if err = ''not-allowed'' \<or> err = ''service-not-allowed''
         then (TTSManager_speak
                 (Text ''Microphone permission is required. Please allow access in your browser settings and refresh the page.'')
                 False s1)
                \<lparr>autoListening := False, isRecognitionStarting := False\<rparr>
         else if err = ''no-speech''
         then (if autoListening s1 \<and> \<not> isReadingAloud s1 \<and> \<not> isRecognitionStarting s1 \<and>
                  \<not> isRecognitionStopping s1
               then scheduleRestart RestartAfterNoSpeechCb 2000 s1 else s1)
         else if err = ''audio-capture''
         then s1\<lparr>autoListening := False, isRecognitionStarting := False\<rparr>
         else s1\<lparr>isRecognitionStarting := False\<rparr>)"

definition recognition_onend :: "state \<Rightarrow> state" where
  "recognition_onend s =
     (let s1 = s\<lparr>isRecording := False, isRecognitionStarting := False,
                 isRecognitionStopping := False\<rparr>
      in if autoListening s1 \<and> recognition s1 \<and> \<not> isReadingAloud s1 \<and>
            \<not> isRecognitionStarting s1 \<and> \<not> isRecognitionStopping s1
         then scheduleRestart RestartAfterEndCb 2000 s1 else s1)"

text \<open>
  \<^verbatim>\<open>recognition.onresult\<close>, together with the part of \<^verbatim>\<open>processVoiceCommand\<close>
  that runs before its first \<^verbatim>\<open>await\<close>. The second component is the transcript that
  was passed to \<^verbatim>\<open>processVoiceCommand\<close>, if it was called.
\<close>

definition processVoiceCommand_begin :: "state \<Rightarrow> state" where
  "processVoiceCommand_begin s = (if isReadingAloud s then stopReading s else s)"

definition recognition_onresult :: "bool \<Rightarrow> string \<Rightarrow> state \<Rightarrow> state \<times> string option" where
  "recognition_onresult isFinal rawTranscript s =
     (let s1 = s\<lparr>userInteracted := True\<rparr>
      in if \<not> isFinal then (s1, None)
         else
           (let transcript = trim rawTranscript
            in if transcript = [] then (s1, None)
               else
                 (let s2 = (if isReadingAloud s1 then stopReading s1 else s1);
                      cmdLower = toLowerCase transcript
                  in if cmdLower = ''stop'' \<or> includesStr cmdLower ''stop talking'' \<or>
                        includesStr cmdLower ''stop reading'' \<or>
                        includesStr cmdLower ''be quiet'' \<or> includesStr cmdLower ''shut up''
                     then (stopReading s2, None)
                     else (processVoiceCommand_begin s2, Some transcript))))"

text \<open>
  \<^verbatim>\<open>requestMicrophonePermission\<close>: the outcome of \<^verbatim>\<open>getUserMedia\<close> is the
  environment's; a refusal is narrated.
\<close>

definition requestMicrophonePermission :: "permissionOutcome \<Rightarrow> state \<Rightarrow> bool \<times> state" where
  "requestMicrophonePermission outcome s =
     (case outcome of
        PermissionGranted \<Rightarrow> (True, s)
      | PermissionNotAllowed \<Rightarrow>
          (False,
           TTSManager_speak
             (Text ''Microphone permission is required for voice commands. Please allow access in your browser settings.'')
             False s)
      | PermissionNotFound \<Rightarrow> (False, s)
      | PermissionOtherError \<Rightarrow> (False, s))"

text \<open>
  \<^verbatim>\<open>toggleVoiceRecording\<close>, the handler of the voice button, is the only operation of
  the source that stops recognition. Its first part runs up to the
  \<^verbatim>\<open>await requestMicrophonePermission()\<close> of the start branch, its second part after it.
\<close>

definition toggleVoiceRecording :: "env \<Rightarrow> state \<Rightarrow> state" where
  "toggleVoiceRecording e s =
     (if \<not> recognition s then s
      else if isRecording s \<or> isRecognitionStarting s
      then
        (let s1 = s\<lparr>autoListening := False, isRecognitionStopping := True,
                    recCalls := recCalls s @ [RecStop]\<rparr>
         in if stopThrows e
            then s1\<lparr>isRecording := False, isRecognitionStarting := False,
                    isRecognitionStopping := False\<rparr>
            else s1)
      else s)"

definition toggleVoiceRecording_permission :: "permissionOutcome \<Rightarrow> env \<Rightarrow> state \<Rightarrow> state" where
  "toggleVoiceRecording_permission outcome e s =
     (case requestMicrophonePermission outcome s of
        (hasPermission, s1) \<Rightarrow>
          if hasPermission
          then (case safeStartRecognition e (s1\<lparr>autoListening := True\<rparr>) of
                  (ok, s2) \<Rightarrow> if ok then s2 else s2\<lparr>autoListening := False\<rparr>)
          else s1)"

subsection \<open>Automatic start (\<^verbatim>\<open>startVoiceRecognitionImmediately\<close>,
  \<^verbatim>\<open>autoStartVoiceRecognition\<close>)\<close>

definition immediateStartCallback :: "state \<Rightarrow> state" where
  "immediateStartCallback s =
     (if \<not> recognition s then setTimeout RetryImmediateCb 500 s
      else if \<not> isRecording s \<and> \<not> isRecognitionStarting s then s\<lparr>autoListening := True\<rparr>
      else s)"

definition immediateStart_permission :: "permissionOutcome \<Rightarrow> state \<Rightarrow> state" where
  "immediateStart_permission outcome s =
     (case requestMicrophonePermission outcome s of
        (hasPermission, s1) \<Rightarrow>
          if hasPermission then setTimeout ImmediateSafeStartCb 300 s1 else s1)"

definition retryImmediateCallback :: "state \<Rightarrow> state" where
  "retryImmediateCallback s = setTimeout ImmediateStartCb 1000 s"

definition immediateSafeStartCallback :: "env \<Rightarrow> state \<Rightarrow> state" where
  "immediateSafeStartCallback e s =
     (case safeStartRecognition e s of
        (ok, s1) \<Rightarrow>
          if ok
          then (if userInteracted s1
                then TTSManager_speak
                       (Text ''Voice recognition is now active. You can speak your commands.'')
                       False s1
                else s1)
          else s1)"

text \<open>
  \<^verbatim>\<open>startOnInteraction\<close>; \<^verbatim>\<open>autoStartVoiceRecognition\<close>, which it calls, changes no
  variable before it awaits the microphone permission.
\<close>

definition startOnInteraction :: "state \<Rightarrow> state" where
  "startOnInteraction s =
     (if \<not> isRecording s \<and> \<not> isRecognitionStarting s then s\<lparr>userInteracted := True\<rparr> else s)"

definition autoStart_permission :: "permissionOutcome \<Rightarrow> state \<Rightarrow> state" where
  "autoStart_permission outcome s =
     (case requestMicrophonePermission outcome s of
        (hasPermission, s1) \<Rightarrow> if hasPermission then setTimeout AutoStartCb 300 s1 else s1)"

definition autoStartCallback :: "env \<Rightarrow> state \<Rightarrow> state" where
  "autoStartCallback e s =
     (if \<not> isRecording s \<and> \<not> isRecognitionStarting s \<and> \<not> isRecognitionStopping s \<and>
         recognition s
      then (case safeStartRecognition e (s\<lparr>autoListening := True\<rparr>) of
              (ok, s1) \<Rightarrow> if ok then s1 else s1\<lparr>autoListening := False\<rparr>)
      else s)"

definition visibilityChange :: "state \<Rightarrow> state" where
  "visibilityChange s =
     (if \<not> isRecording s \<and> \<not> isRecognitionStarting s
      then setTimeout StartOnInteractionCb 100 s else s)"

subsection \<open>Synthesis callbacks of an utterance\<close>

definition utterance_onstart :: "state \<Rightarrow> state" where
  "utterance_onstart s = s\<lparr>isActive := True, isReadingAloud := True\<rparr>"

definition utterance_onend :: "state \<Rightarrow> state" where
  "utterance_onend s =
     (let s1 = s\<lparr>currentUtterance := None, isActive := False, isReadingAloud := False,
                 currentSpeech := None\<rparr>
      in if autoListening s1 \<and> recognition s1 \<and> \<not> isRecording s1 \<and>
            \<not> isRecognitionStarting s1 \<and> \<not> isRecognitionStopping s1
         then scheduleRestart RestartAfterSpeechCb 1000 s1 else s1)"

definition utterance_onerror :: "string \<Rightarrow> state \<Rightarrow> state" where
  "utterance_onerror err s =
     (let s1 = s\<lparr>currentUtterance := None, isActive := False, isReadingAloud := False,
                 currentSpeech := None\<rparr>
      in if err = ''not-allowed'' then s1\<lparr>userInteracted := False\<rparr> else s1)"

subsection \<open>Lookups\<close>

text \<open>
  \<^verbatim>\<open>searchPlayerStats\<close> up to its first \<^verbatim>\<open>await\<close>, and its last stretch, which
  depends on how the lookup went. \<^verbatim>\<open>displayResults\<close> schedules a reading of its own
  before \<^verbatim>\<open>searchPlayerStats\<close> schedules the guarded one.
\<close>

definition searchPlayerStats_begin :: "state \<Rightarrow> state" where
  "searchPlayerStats_begin s = s\<lparr>userInteracted := True, ttsMuted := False\<rparr>"

definition searchPlayerStats_finish :: "searchOutcome \<Rightarrow> state \<Rightarrow> state" where
  "searchPlayerStats_finish outcome s =
     (case outcome of
        NoPlayersFound name \<Rightarrow>
          TTSManager_readError (''No players found matching '' @ name) s
      | SearchFailed errorMessage \<Rightarrow> TTSManager_readError errorMessage s
      | SearchSucceeded r \<Rightarrow>
          setTimeout ReadResultsCb 1500
            (setTimeout DisplayReadResultsCb 500
               (s\<lparr>ttsMuted := False, searchResults := Some r\<rparr>)))"

definition readResultsCallback :: "env \<Rightarrow> state \<Rightarrow> state" where
  "readResultsCallback e s =
     (if \<not> isReadingAloud s \<and> \<not> ttsMuted s then readResultsAloud e s else s)"

text \<open>\<^verbatim>\<open>comparePlayers\<close> and \<^verbatim>\<open>showClubAchievements\<close> change no variable before
  their lookups return, and none when the lookup fails.\<close>

definition comparePlayers_finish :: "bool \<Rightarrow> state \<Rightarrow> state" where
  "comparePlayers_finish found s =
     (if found then setTimeout ReadComparisonCb 500 (s\<lparr>ttsMuted := False\<rparr>) else s)"

definition showClubAchievements_finish :: "bool \<Rightarrow> state \<Rightarrow> state" where
  "showClubAchievements_finish found s =
     (if found then setTimeout ReadClubInfoCb 500 (s\<lparr>ttsMuted := False\<rparr>) else s)"

definition loadFavorites :: "env \<Rightarrow> state \<Rightarrow> state" where
  "loadFavorites e s =
     (case favoritesOutcome e of
        FavoritesList n \<Rightarrow>
          if userInteracted s \<and> \<not> ttsMuted s then setTimeout (ReadFavoritesCb n) 500 s else s
      | FavoritesThrows msg \<Rightarrow> TTSManager_readError msg s)"

subsection \<open>The coordinator (\<^verbatim>\<open>processVoiceCommand\<close> after the remote parser answered)\<close>

definition specialActions :: "action list" where
  "specialActions =
     [stop_speaking, resume_speaking, read_injuries, read_transfers, read_achievements,
      read_market_value, add_player_favorite, add_club_favorite, add_current_player_favorite,
      add_current_club_favorite, remove_player_favorite, remove_club_favorite, show_favorites]"

text \<open>Truthiness of an optional string: \<^verbatim>\<open>null\<close>, \<^verbatim>\<open>undefined\<close> and the empty
  string are falsy.\<close>

definition truthy :: "string option \<Rightarrow> bool" where
  "truthy x = (case x of None \<Rightarrow> False | Some v \<Rightarrow> v \<noteq> [])"

definition resultSection :: "(results \<Rightarrow> sectionData option) \<Rightarrow> state \<Rightarrow> sectionData option" where
  "resultSection field s = (case searchResults s of None \<Rightarrow> None | Some r \<Rightarrow> field r)"

text \<open>
  The \<^verbatim>\<open>switch\<close> on the action. The favourites actions, the comparison and the club
  lookup change none of the variables of the state before they return to the event loop;
  the lookups' later stretches are \<open>comparePlayers_finish\<close> and
  \<open>showClubAchievements_finish\<close>.
\<close>

definition dispatch :: "env \<Rightarrow> intent \<Rightarrow> state \<Rightarrow> state" where
  "dispatch e data s =
     (let normalizedPlayerName = map_option trim (playerName data)
      in case action data of
           stop_speaking \<Rightarrow> stopReading (s\<lparr>ttsMuted := True\<rparr>)
         | resume_speaking \<Rightarrow>
             (let s1 = s\<lparr>ttsMuted := False\<rparr>
              in if searchResults s1 \<noteq> None then readResultsAloud e s1 else s1)
         | read_injuries \<Rightarrow>
             (case resultSection injuries s of
                Some d \<Rightarrow> readInjuriesAloud d s
              | None \<Rightarrow>
                  TTSManager_speak
                    (Text ''No injuries data available. Please search for a player first.'')
                    False s)
         | read_transfers \<Rightarrow>
             (case resultSection transfers s of
                Some d \<Rightarrow> readTransfersAloud d s
              | None \<Rightarrow>
                  TTSManager_speak
                    (Text ''No transfers data available. Please search for a player first.'')
                    False s)
         | read_achievements \<Rightarrow>
             (case resultSection achievements s of
                Some d \<Rightarrow> readAchievementsAloud d s
              | None \<Rightarrow>
                  TTSManager_speak
                    (Text ''No achievements data available. Please search for a player first.'')
                    False s)
         | read_market_value \<Rightarrow>
             (case resultSection marketValue s of
                Some d \<Rightarrow> readMarketValueAloud d s
              | None \<Rightarrow>
                  TTSManager_speak
                    (Text ''No market value data available. Please search for a player first.'')
                    False s)
         | search_player \<Rightarrow>
             if truthy normalizedPlayerName then searchPlayerStats_begin s else s
         | compare_players \<Rightarrow> s
         | club_achievements \<Rightarrow> s
         | club_info \<Rightarrow> s
         | show_favorites \<Rightarrow> loadFavorites e s
         | add_player_favorite \<Rightarrow> s
         | add_club_favorite \<Rightarrow> s
         | add_current_player_favorite \<Rightarrow> s
         | add_current_club_favorite \<Rightarrow> s
         | remove_player_favorite \<Rightarrow> s
         | remove_club_favorite \<Rightarrow> s
         | other_action \<Rightarrow>
             if truthy normalizedPlayerName then searchPlayerStats_begin s
             else TTSManager_speak
                    (Text ''Sorry, I could not understand that command. Please try again.'')
                    False s)"

text \<open>
  The intent that is dispatched: the local parser's for the control actions, otherwise
  the remote parser's when it answered. A remote answer that cannot be destructured
  raises (\<open>None\<close>), and the \<^verbatim>\<open>catch\<close> narrates an apology.
\<close>

definition chosenIntent :: "string \<Rightarrow> remoteResponse \<Rightarrow> intent option" where
  "chosenIntent transcript remote =
     (let localIntent = parseVoiceCommandLocal transcript
      in if action localIntent \<in> set specialActions then Some localIntent
         else case remote of
                RemoteIntent data \<Rightarrow> Some data
              | RemoteUnavailable \<Rightarrow> Some localIntent
              | RemoteMalformed \<Rightarrow> None)"

definition processVoiceCommand_resume :: "env \<Rightarrow> string \<Rightarrow> remoteResponse \<Rightarrow> state \<Rightarrow> state" where
  "processVoiceCommand_resume e transcript remote s =
     (case chosenIntent transcript remote of
        Some data \<Rightarrow> dispatch e data s
      | None \<Rightarrow>
          TTSManager_speak
            (Text ''Sorry, I encountered an error processing your command.'') False s)"

definition searchFormSubmit :: "string \<Rightarrow> state \<Rightarrow> state" where
  "searchFormSubmit name s =
     (let s1 = s\<lparr>userInteracted := True\<rparr>
      in if trim name \<noteq> [] then searchPlayerStats_begin s1 else s1)"

subsection \<open>Events\<close>

definition runTimer :: "env \<Rightarrow> timerCallback \<Rightarrow> state \<Rightarrow> state" where
  "runTimer e cb s =
     (case cb of
        ImmediateStartCb \<Rightarrow> immediateStartCallback s
      | RetryImmediateCb \<Rightarrow> retryImmediateCallback s
      | ImmediateSafeStartCb \<Rightarrow> immediateSafeStartCallback e s
      | StartOnInteractionCb \<Rightarrow> startOnInteraction s
      | AutoStartCb \<Rightarrow> autoStartCallback e s
      | RestartAfterNoSpeechCb \<Rightarrow> restartAfterNoSpeech e s
      | RestartAfterEndCb \<Rightarrow> restartAfterEnd e s
      | RestartAfterSpeechCb \<Rightarrow> restartAfterSpeech e s
      | ReadResultsCb \<Rightarrow> readResultsCallback e s
      | DisplayReadResultsCb \<Rightarrow> readResultsAloud e s
      | ReadComparisonCb \<Rightarrow> TTSManager_readComparison s
      | ReadClubInfoCb \<Rightarrow> TTSManager_readClubInfo s
      | ReadFavoritesCb n \<Rightarrow> TTSManager_readFavorites n s
      | SpeakCb txt \<Rightarrow> speakCallback e txt s)"

text \<open>A pending timer fires: it stops being pending and its callback runs.\<close>

definition timerFires :: "env \<Rightarrow> nat \<Rightarrow> state \<Rightarrow> state" where
  "timerFires e i s =
     (case find (\<lambda>t. timerId t = i) (timers s) of
        None \<Rightarrow> s
      | Some t \<Rightarrow> runTimer e (callback t) (clearTimeout i s))"

datatype event =
    TimerFires nat
  | UserInteraction
  | VisibilityChange
  | ImmediateStartPermission permissionOutcome
  | AutoStartPermission permissionOutcome
  | VoiceButton
  | VoiceButtonPermission permissionOutcome
  | StopButton
  | RecognitionStart
  | RecognitionResult bool string
  | RecognitionError string
  | RecognitionEnd
  | ParseCommandResponse string remoteResponse
  | UtteranceStart
  | UtteranceEnd
  | UtteranceError string
  | SearchFormSubmit string
  | FavoritePlayerClick
  | SearchFinished searchOutcome
  | CompareFinished bool
  | ClubFinished bool
  | FavoritesOpened

definition step :: "env \<Rightarrow> event \<Rightarrow> state \<Rightarrow> state" where
  "step e ev s =
     (case ev of
        TimerFires i \<Rightarrow> timerFires e i s
      | UserInteraction \<Rightarrow> startOnInteraction s
      | VisibilityChange \<Rightarrow> visibilityChange s
      | ImmediateStartPermission outcome \<Rightarrow> immediateStart_permission outcome s
      | AutoStartPermission outcome \<Rightarrow> autoStart_permission outcome s
      | VoiceButton \<Rightarrow> toggleVoiceRecording e s
      | VoiceButtonPermission outcome \<Rightarrow> toggleVoiceRecording_permission outcome e s
      | StopButton \<Rightarrow> stopReading s
      | RecognitionStart \<Rightarrow> recognition_onstart s
      | RecognitionResult isFinal transcript \<Rightarrow> fst (recognition_onresult isFinal transcript s)
      | RecognitionError err \<Rightarrow> recognition_onerror err s
      | RecognitionEnd \<Rightarrow> recognition_onend s
      | ParseCommandResponse transcript remote \<Rightarrow> processVoiceCommand_resume e transcript remote s
      | UtteranceStart \<Rightarrow> utterance_onstart s
      | UtteranceEnd \<Rightarrow> utterance_onend s
      | UtteranceError err \<Rightarrow> utterance_onerror err s
      | SearchFormSubmit name \<Rightarrow> searchFormSubmit name s
      | FavoritePlayerClick \<Rightarrow> searchPlayerStats_begin s
      | SearchFinished outcome \<Rightarrow> searchPlayerStats_finish outcome s
      | CompareFinished found \<Rightarrow> comparePlayers_finish found s
      | ClubFinished found \<Rightarrow> showClubAchievements_finish found s
      | FavoritesOpened \<Rightarrow> loadFavorites e s)"

definition run :: "(env \<times> event) list \<Rightarrow> state \<Rightarrow> state" where
  "run tr s = fold (\<lambda>(e, ev). step e ev) tr s"

section \<open>Observations and scenarios\<close>

text \<open>The narrations handed to the synthesis engine so far, in order.\<close>

fun narrations :: "synthCall list \<Rightarrow> narration list" where
  "narrations [] = []"
| "narrations (SynthSpeak txt # cs) = txt # narrations cs"
| "narrations (SynthCancel # cs) = narrations cs"

definition spoken :: "state \<Rightarrow> narration list" where
  "spoken s = narrations (synthCalls s)"

text \<open>The pending timers whose callback is one of the three debounced restarts.\<close>

definition isRestartCallback :: "timerCallback \<Rightarrow> bool" where
  "isRestartCallback cb =
     (cb = RestartAfterNoSpeechCb \<or> cb = RestartAfterEndCb \<or> cb = RestartAfterSpeechCb)"

definition pendingRestarts :: "state \<Rightarrow> timer list" where
  "pendingRestarts s = filter (\<lambda>t. isRestartCallback (callback t)) (timers s)"

text \<open>
  Timer handles are positive, fresh and pairwise different, and a pending restart timer
  is the one \<open>restartTimeout\<close> refers to.
\<close>

definition timersInv :: "state \<Rightarrow> bool" where
  "timersInv s \<longleftrightarrow>
     0 < nextTimer s \<and>
     (\<forall>t \<in> set (timers s). 0 < timerId t \<and> timerId t < nextTimer s) \<and>
     distinct (map timerId (timers s)) \<and>
     (\<forall>t \<in> set (timers s). isRestartCallback (callback t) \<longrightarrow>
        restartTimeout s = Some (timerId t))"

text \<open>
  The events whose handler executes \<^verbatim>\<open>ttsMuted = false\<close>: the dispatch of
  \<open>resume_speaking\<close>, every entry into \<^verbatim>\<open>searchPlayerStats\<close> (from a dispatched
  search, the search form or a favourite), and the success of a player, comparison or
  club lookup.
\<close>

definition unmutes :: "event \<Rightarrow> bool" where
  "unmutes ev =
     (case ev of
        ParseCommandResponse transcript remote \<Rightarrow>
          (case chosenIntent transcript remote of
             None \<Rightarrow> False
           | Some data \<Rightarrow>
               action data = resume_speaking \<or>
               ((action data = search_player \<or> action data = other_action) \<and>
                truthy (map_option trim (playerName data))))
      | SearchFormSubmit name \<Rightarrow> trim name \<noteq> []
      | FavoritePlayerClick \<Rightarrow> True
      | SearchFinished outcome \<Rightarrow>
          (case outcome of SearchSucceeded r \<Rightarrow> True | _ \<Rightarrow> False)
      | CompareFinished found \<Rightarrow> found
      | ClubFinished found \<Rightarrow> found
      | _ \<Rightarrow> False)"

text \<open>
  Scenarios. In \<open>calmEnv\<close> every call to the browser succeeds and the synthesis engine
  reports that it is not speaking. \<open>startupTrace\<close> is a page load in a browser that has
  both engines and has already been granted the microphone: the start-up timer fires,
  the permission is confirmed, the delayed start runs and the engine reports that
  recognition started.
\<close>

definition calmEnv :: env where
  "calmEnv = \<lparr>startOutcome = Started, stopThrows = False, speakThrows = False,
              speaking = False, favoritesOutcome = FavoritesList 0\<rparr>"

definition startupTrace :: "(env \<times> event) list" where
  "startupTrace =
     [(calmEnv, TimerFires 1), (calmEnv, ImmediateStartPermission PermissionGranted),
      (calmEnv, TimerFires 2), (calmEnv, RecognitionStart)]"

definition listeningState :: state where
  "listeningState = run startupTrace (initialState True True)"

text \<open>
  While listening, the user says "read injuries" before any lookup; the remote parser
  is unreachable; the remark that no data is available is scheduled, handed to the
  synthesis engine, and the engine reports that the utterance started.
\<close>

definition speakingState :: state where
  "speakingState =
     run [(calmEnv, RecognitionResult True ''read injuries''),
          (calmEnv, ParseCommandResponse ''read injuries'' RemoteUnavailable),
          (calmEnv, TimerFires 3),
          (calmEnv, UtteranceStart)] listeningState"

text \<open>While listening, the user presses the voice button.\<close>

definition stoppingState :: state where
  "stoppingState = run [(calmEnv, VoiceButton)] listeningState"

text \<open>... and the engine reports the end of the recognition session.\<close>

definition idleState :: state where
  "idleState = run [(calmEnv, RecognitionEnd)] stoppingState"

text \<open>
  While listening, the user says "stop now", which the parser maps to
  \<open>stop_speaking\<close> and the coordinator dispatches.
\<close>

definition mutedState :: state where
  "mutedState =
     run [(calmEnv, RecognitionResult True ''stop now''),
          (calmEnv, ParseCommandResponse ''stop now'' RemoteUnavailable)] listeningState"

text \<open>
  Then the user says "messi"; the lookup is started and fails; the timer set by
  \<^verbatim>\<open>TTSManager.speak\<close> fires.
\<close>

definition failedLookupTrace :: "(env \<times> event) list" where
  "failedLookupTrace =
     [(calmEnv, RecognitionResult True ''messi''),
      (calmEnv, ParseCommandResponse ''messi'' RemoteUnavailable),
      (calmEnv, SearchFinished (SearchFailed ''Failed to fetch'')),
      (calmEnv, TimerFires 3)]"

text \<open>
  While listening, the user says "messi"; the lookup succeeds with an injury section of
  two entries; the reading scheduled by \<^verbatim>\<open>displayResults\<close> runs, the report is handed
  to the synthesis engine and the engine reports that the utterance started.
\<close>

definition messiResults :: results where
  "messiResults = \<lparr>transfers = None, injuries = Some (Some 2), achievements = None,
                   marketValue = None\<rparr>"

definition narratingState :: state where
  "narratingState =
     run [(calmEnv, RecognitionResult True ''messi''),
          (calmEnv, ParseCommandResponse ''messi'' RemoteUnavailable),
          (calmEnv, SearchFinished (SearchSucceeded messiResults)),
          (calmEnv, TimerFires 3),
          (calmEnv, TimerFires 5),
          (calmEnv, UtteranceStart)] listeningState"

text \<open>While listening with auto-listening on, the engine ends the session twice in quick
  succession and then reports a no-speech error.\<close>

definition rapidEndTrace :: "(env \<times> event) list" where
  "rapidEndTrace =
     startupTrace @
     [(calmEnv, RecognitionEnd), (calmEnv, RecognitionEnd), (calmEnv, RecognitionError ''no-speech'')]"

text \<open>A narration is in progress, an interrupting report has just been requested (its
  timer is pending), and the stop button is pressed.\<close>

definition mutedWithPendingSpeech :: state where
  "mutedWithPendingSpeech = stopReading (TTSManager_speak InjuryReport True narratingState)"

text \<open>
  After the mute of \<open>mutedState\<close>: the user asks for the injuries, a lookup that was
  started earlier fails, the favourites page is opened, the recognition session ends and
  the restart timer fires.
\<close>

definition mutedQuietTrace :: "(env \<times> event) list" where
  "mutedQuietTrace =
     [(calmEnv, RecognitionResult True ''read injuries''),
      (calmEnv, ParseCommandResponse ''read injuries'' RemoteUnavailable),
      (calmEnv, SearchFinished (SearchFailed ''Failed to fetch'')),
      (calmEnv, FavoritesOpened),
      (calmEnv, RecognitionEnd),
      (calmEnv, TimerFires 3)]"

section \<open>Properties of the intent parser\<close>

lemma firstMatch_stop:
  "ruleStopResume cl = Some i \<Longrightarrow> firstMatch (ruleStopResume # rules) cl = Some i"
  unfolding firstMatch_def by (induction rules rule: rev_induct) auto

text \<open>
  C2, as the parser implements it. The stop rule is the first block of the parser, so
  whenever its condition holds the result is \<open>stop_speaking\<close> whatever else the
  utterance contains. Its condition is: the lower-cased, trimmed utterance is exactly
  "stop", or starts with "stop ", or contains one of "stop talking", "stop reading",
  "be quiet", "shut up", "quiet".
\<close>

theorem stop_rule_first:
  assumes "commandLower = trim (toLowerCase command)"
    and "commandLower = ''stop'' \<or> startsWith commandLower ''stop '' \<or>
         includesStr commandLower ''stop talking'' \<or> includesStr commandLower ''stop reading'' \<or>
         includesStr commandLower ''be quiet'' \<or> includesStr commandLower ''shut up'' \<or>
         includesStr commandLower ''quiet''"
  shows "parseVoiceCommandLocal command = justAction stop_speaking"
proof -
  from assms(2) have "ruleStopResume commandLower = Some (justAction stop_speaking)"
    unfolding ruleStopResume_def by simp
  then have "firstMatch [ruleStopResume, ruleReadSection, ruleShowFavorites, ruleQuickFavorite,
                          ruleAddFavorite, ruleRemoveFavorite, ruleCompare, ruleClubInfo,
                          rulePlayerStats] commandLower = Some (justAction stop_speaking)"
    by (rule firstMatch_stop)
  then show ?thesis
    unfolding parseVoiceCommandLocal_def assms(1)[symmetric] by (simp add: Let_def)
qed

theorem stop_rule_first_witness:
  "startsWith (trim (toLowerCase ''Stop and compare Messi and Ronaldo'')) ''stop '' \<and>
   parseVoiceCommandLocal ''Stop and compare Messi and Ronaldo'' = justAction stop_speaking"
proof -
  have h: "startsWith (trim (toLowerCase ''Stop and compare Messi and Ronaldo'')) ''stop ''"
    by code_simp
  from stop_rule_first [OF refl, of "''Stop and compare Messi and Ronaldo''"] h
  show ?thesis by blast
qed

text \<open>
  C2 as stated fails: "please stop" contains "stop" as a whole word, but not at the
  start, and none of the listed phrases; the parser falls through to the default rule
  and returns a player search for "please stop".
\<close>

theorem stop_whole_word_counterexample:
  "includesStr (trim (toLowerCase ''please stop'')) ''stop'' \<and>
   parseVoiceCommandLocal ''please stop'' =
     (justAction search_player)\<lparr>playerName := Some ''please stop''\<rparr> \<and>
   action (parseVoiceCommandLocal ''please stop'') \<noteq> stop_speaking"
  by code_simp



section \<open>Properties of the speech channel\<close>

lemma narrations_append [simp]: "narrations (xs @ ys) = narrations xs @ narrations ys"
  by (induction xs rule: narrations.induct) simp_all

lemma speak_frame [simp]:
  "isRecording (TTSManager_speak txt b s) = isRecording s"
  "isRecognitionStarting (TTSManager_speak txt b s) = isRecognitionStarting s"
  "isRecognitionStopping (TTSManager_speak txt b s) = isRecognitionStopping s"
  "autoListening (TTSManager_speak txt b s) = autoListening s"
  "ttsMuted (TTSManager_speak txt b s) = ttsMuted s"
  "isReadingAloud (TTSManager_speak txt b s) = isReadingAloud s"
  "restartTimeout (TTSManager_speak txt b s) = restartTimeout s"
  "recognition (TTSManager_speak txt b s) = recognition s"
  "queue (TTSManager_speak txt b s) = queue s"
  "recCalls (TTSManager_speak txt b s) = recCalls s"
  "spoken (TTSManager_speak txt b s) = spoken s"
  by (simp_all add: TTSManager_speak_def Let_def setTimeout_def speechSynthesis_cancel_def spoken_def)

lemma scheduleRestart_frame [simp]:
  "isRecording (scheduleRestart cb d s) = isRecording s"
  "isRecognitionStarting (scheduleRestart cb d s) = isRecognitionStarting s"
  "isRecognitionStopping (scheduleRestart cb d s) = isRecognitionStopping s"
  "autoListening (scheduleRestart cb d s) = autoListening s"
  "ttsMuted (scheduleRestart cb d s) = ttsMuted s"
  "isReadingAloud (scheduleRestart cb d s) = isReadingAloud s"
  "recognition (scheduleRestart cb d s) = recognition s"
  "recCalls (scheduleRestart cb d s) = recCalls s"
  "spoken (scheduleRestart cb d s) = spoken s"
  by (simp_all add: scheduleRestart_def Let_def setTimeout_def clearTimeout_def spoken_def
        split: option.splits)

text \<open>
  C8, as the handler implements it. After \<^verbatim>\<open>recognition.onerror\<close> has run, for every
  kind of error, \<open>isRecording\<close> and \<open>isRecognitionStarting\<close> are false, so the
  controller is never left in Starting or Listening; \<open>isRecognitionStopping\<close> is not
  written by the handler and keeps the value it had. It is the \<^verbatim>\<open>onend\<close> handler
  that clears it: after \<^verbatim>\<open>onerror\<close> followed by \<^verbatim>\<open>onend\<close> all three
  indicators are false.
\<close>

theorem onerror_flags:
  "isRecording (recognition_onerror err s) = False \<and>
   isRecognitionStarting (recognition_onerror err s) = False \<and>
   isRecognitionStopping (recognition_onerror err s) = isRecognitionStopping s \<and>
   isRecording (recognition_onend (recognition_onerror err s)) = False \<and>
   isRecognitionStarting (recognition_onend (recognition_onerror err s)) = False \<and>
   isRecognitionStopping (recognition_onend (recognition_onerror err s)) = False"
  by (simp add: recognition_onerror_def recognition_onend_def Let_def)

theorem onerror_flags_witness:
  "isRecognitionStopping stoppingState \<and>
   isRecording (recognition_onerror ''no-speech'' stoppingState) = False \<and>
   isRecognitionStarting (recognition_onerror ''no-speech'' stoppingState) = False \<and>
   isRecognitionStopping (recognition_onerror ''no-speech'' stoppingState) \<and>
   isRecognitionStopping (recognition_onend (recognition_onerror ''no-speech'' stoppingState)) = False"
proof -
  have h: "isRecognitionStopping stoppingState" by code_simp
  from onerror_flags [of "''no-speech''" stoppingState] h show ?thesis by simp
qed

text \<open>
  C8 as stated fails: the voice button was pressed while listening, so the controller is
  in Stopping; an error event that arrives before the end event leaves
  \<open>isRecognitionStopping\<close> set.
\<close>

theorem onerror_stopping_counterexample:
  "isRecording stoppingState \<and> isRecognitionStopping stoppingState \<and>
   isRecognitionStopping (recognition_onerror ''no-speech'' stoppingState) \<and>
   isRecognitionStopping (recognition_onerror ''aborted'' stoppingState)"
  by code_simp


text \<open>
  C3. If \<open>ttsMuted\<close> is true when the callback scheduled by \<^verbatim>\<open>TTSManager.speak\<close>
  runs (the moment the utterance would start), the callback changes nothing: no utterance
  is created or handed to the synthesis engine. The callback is the same for interrupt
  and non-interrupt calls. Nothing is kept for a later replay: a non-interrupt call made
  while muted returns at once without scheduling anything, no call ever writes
  \<^verbatim>\<open>TTSManager.queue\<close> or hands an utterance to the engine by itself, and a timer that
  fires while muted is simply gone afterwards.
\<close>

theorem mute_gate:
  assumes "ttsMuted s"
  shows "speakCallback e txt s = s \<and>
         TTSManager_speak txt False s = s \<and>
         spoken (TTSManager_speak txt True s) = spoken s \<and>
         queue (TTSManager_speak txt True s) = queue s \<and>
         (find (\<lambda>t. timerId t = i) (timers s) = Some (Timer i d (SpeakCb txt)) \<longrightarrow>
            timerFires e i s = clearTimeout i s)"
proof -
  from assms have "speakCallback e txt s = s"
    by (simp add: speakCallback_def)
  moreover from assms have "TTSManager_speak txt False s = s"
    by (simp add: TTSManager_speak_def)
  moreover have "spoken (TTSManager_speak txt True s) = spoken s"
    and "queue (TTSManager_speak txt True s) = queue s"
    by simp_all
  moreover from assms
  have "find (\<lambda>t. timerId t = i) (timers s) = Some (Timer i d (SpeakCb txt)) \<longrightarrow>
          timerFires e i s = clearTimeout i s"
    by (simp add: timerFires_def runTimer_def speakCallback_def clearTimeout_def)
  ultimately show ?thesis by blast
qed

theorem mute_gate_witness:
  "ttsMuted mutedWithPendingSpeech \<and>
   find (\<lambda>t. timerId t = 6) (timers mutedWithPendingSpeech) = Some (Timer 6 100 (SpeakCb InjuryReport)) \<and>
   speakCallback calmEnv InjuryReport mutedWithPendingSpeech = mutedWithPendingSpeech \<and>
   TTSManager_speak InjuryReport False mutedWithPendingSpeech = mutedWithPendingSpeech \<and>
   spoken (timerFires calmEnv 6 mutedWithPendingSpeech) = [PlayerStatsReport] \<and>
   timers (timerFires calmEnv 6 mutedWithPendingSpeech) = [Timer 4 1500 ReadResultsCb]"
proof -
  have h: "ttsMuted mutedWithPendingSpeech" by code_simp
  have f: "find (\<lambda>t. timerId t = 6) (timers mutedWithPendingSpeech) =
             Some (Timer 6 100 (SpeakCb InjuryReport))" by code_simp
  have c: "spoken (clearTimeout 6 mutedWithPendingSpeech) = [PlayerStatsReport] \<and>
           timers (clearTimeout 6 mutedWithPendingSpeech) = [Timer 4 1500 ReadResultsCb]"
    by code_simp
  from mute_gate [OF h, of calmEnv InjuryReport 6 100] h f c show ?thesis by simp
qed

text \<open>
  C6, as \<^verbatim>\<open>TTSManager.speak\<close> implements it. A non-interrupt call is dropped when
  \<open>ttsMuted\<close> is true, not when a narration is in progress. Made while speaking and
  not muted, with a non-blank text, it leaves the utterance in flight alone (the engine's
  \<^verbatim>\<open>cancel\<close> is not called) and schedules a callback with delay 0; unless the mute is
  set in between, that callback creates a new utterance and passes it to
  \<^verbatim>\<open>speechSynthesis.speak\<close>, behind the one in flight.
\<close>

theorem non_interrupt_while_speaking:
  assumes "isReadingAloud s"
  shows "(ttsMuted s \<longrightarrow> TTSManager_speak txt False s = s) \<and>
         (\<not> ttsMuted s \<and> \<not> isEmptyText txt \<and> hasSpeechSynthesis s \<longrightarrow>
            TTSManager_speak txt False s = setTimeout (SpeakCb txt) 0 (s\<lparr>userInteracted := True\<rparr>) \<and>
            synthCalls (TTSManager_speak txt False s) = synthCalls s \<and>
            isReadingAloud (TTSManager_speak txt False s) \<and>
            (\<not> speakThrows e \<longrightarrow>
               synthCalls (speakCallback e txt (TTSManager_speak txt False s)) =
                 synthCalls s @ [SynthSpeak txt] \<and>
               currentUtterance (speakCallback e txt (TTSManager_speak txt False s)) = Some txt))"
  using assms
  by (simp add: TTSManager_speak_def speakCallback_def setTimeout_def Let_def)

theorem non_interrupt_while_speaking_witness:
  "isReadingAloud speakingState \<and> \<not> ttsMuted speakingState \<and>
   \<not> isEmptyText InjuryReport \<and> hasSpeechSynthesis speakingState \<and> \<not> speakThrows calmEnv \<and>
   synthCalls (TTSManager_speak InjuryReport False speakingState) = synthCalls speakingState \<and>
   synthCalls (speakCallback calmEnv InjuryReport (TTSManager_speak InjuryReport False speakingState)) =
     synthCalls speakingState @ [SynthSpeak InjuryReport]"
proof -
  have h: "isReadingAloud speakingState" by code_simp
  have g: "\<not> ttsMuted speakingState \<and> \<not> isEmptyText InjuryReport \<and>
           hasSpeechSynthesis speakingState \<and> \<not> speakThrows calmEnv" by code_simp
  from non_interrupt_while_speaking [OF h, of InjuryReport calmEnv] h g show ?thesis by blast
qed

text \<open>
  C6 as stated fails: in \<open>speakingState\<close> a narration is in flight; the non-interrupt
  call \<^verbatim>\<open>speak('No results to read', false)\<close> schedules timer 4, and when it fires
  a second utterance is created and handed to the engine.
\<close>

theorem non_interrupt_drop_counterexample:
  "isReadingAloud speakingState \<and> isActive speakingState \<and>
   synthCalls speakingState =
     [SynthSpeak (Text ''No injuries data available. Please search for a player first.'')] \<and>
   timers (TTSManager_speak (Text ''No results to read'') False speakingState) =
     [Timer 4 0 (SpeakCb (Text ''No results to read''))] \<and>
   synthCalls (timerFires calmEnv 4
                (TTSManager_speak (Text ''No results to read'') False speakingState)) =
     [SynthSpeak (Text ''No injuries data available. Please search for a player first.''),
      SynthSpeak (Text ''No results to read'')] \<and>
   currentUtterance (timerFires calmEnv 4
                (TTSManager_speak (Text ''No results to read'') False speakingState)) =
     Some (Text ''No results to read'')"
  by code_simp

text \<open>
  C9, as the source implements it. The only operation that stops recognition is the
  voice button's handler \<^verbatim>\<open>toggleVoiceRecording\<close>, and it is a toggle. Every exception
  of the engine is caught, so the handler does not throw. Pressed while Listening or
  Starting, it turns auto-listening off and calls \<^verbatim>\<open>recognition.stop()\<close>, never
  \<^verbatim>\<open>start()\<close>; the phase is then Stopping (or, when \<^verbatim>\<open>stop()\<close> threw, Idle at
  once); pressed again before the engine's end event it takes the same branch again; the
  end event makes the phase Idle and schedules no restart. Pressed when neither Listening
  nor Starting, it does nothing until the microphone permission is answered, and then, in
  Idle with the permission granted, it starts recognition.
\<close>

theorem voice_button_toggle:
  assumes "recognition s"
  shows "(isRecording s \<or> isRecognitionStarting s \<longrightarrow>
            \<not> autoListening (toggleVoiceRecording e s) \<and>
            recCalls (toggleVoiceRecording e s) = recCalls s @ [RecStop] \<and>
            (stopThrows e \<longrightarrow>
               \<not> isRecording (toggleVoiceRecording e s) \<and>
               \<not> isRecognitionStarting (toggleVoiceRecording e s) \<and>
               \<not> isRecognitionStopping (toggleVoiceRecording e s)) \<and>
            (\<not> stopThrows e \<longrightarrow>
               isRecognitionStopping (toggleVoiceRecording e s) \<and>
               isRecording (toggleVoiceRecording e s) = isRecording s \<and>
               isRecognitionStarting (toggleVoiceRecording e s) = isRecognitionStarting s \<and>
               recCalls (toggleVoiceRecording e (toggleVoiceRecording e s)) =
                 recCalls s @ [RecStop, RecStop]) \<and>
            \<not> isRecording (recognition_onend (toggleVoiceRecording e s)) \<and>
            \<not> isRecognitionStarting (recognition_onend (toggleVoiceRecording e s)) \<and>
            \<not> isRecognitionStopping (recognition_onend (toggleVoiceRecording e s)) \<and>
            timers (recognition_onend (toggleVoiceRecording e s)) = timers s) \<and>
         (\<not> isRecording s \<and> \<not> isRecognitionStarting s \<longrightarrow>
            toggleVoiceRecording e s = s \<and>
            (\<not> isRecognitionStopping s \<and> startOutcome e = Started \<longrightarrow>
               isRecognitionStarting (toggleVoiceRecording_permission PermissionGranted e s) \<and>
               autoListening (toggleVoiceRecording_permission PermissionGranted e s) \<and>
               recCalls (toggleVoiceRecording_permission PermissionGranted e s) =
                 recCalls s @ [RecStart]))"
  using assms
  by (auto simp: toggleVoiceRecording_def toggleVoiceRecording_permission_def
        requestMicrophonePermission_def safeStartRecognition_def recognition_onend_def Let_def)

theorem voice_button_toggle_witness:
  "recognition listeningState \<and> isRecording listeningState \<and> \<not> stopThrows calmEnv \<and>
   isRecognitionStopping (toggleVoiceRecording calmEnv listeningState) \<and>
   isRecording (toggleVoiceRecording calmEnv listeningState) \<and>
   recCalls (toggleVoiceRecording calmEnv (toggleVoiceRecording calmEnv listeningState)) =
     recCalls listeningState @ [RecStop, RecStop] \<and>
   recognition idleState \<and> \<not> isRecording idleState \<and> \<not> isRecognitionStarting idleState \<and>
   \<not> isRecognitionStopping idleState \<and> startOutcome calmEnv = Started \<and>
   isRecognitionStarting (toggleVoiceRecording_permission PermissionGranted calmEnv idleState) \<and>
   recCalls (toggleVoiceRecording_permission PermissionGranted calmEnv idleState) =
     recCalls idleState @ [RecStart]"
proof -
  have l: "recognition listeningState" "isRecording listeningState" "\<not> stopThrows calmEnv"
    by code_simp+
  have i: "recognition idleState" "\<not> isRecording idleState" "\<not> isRecognitionStarting idleState"
    "\<not> isRecognitionStopping idleState" "startOutcome calmEnv = Started"
    by code_simp+
  from voice_button_toggle [OF l(1), of calmEnv] voice_button_toggle [OF i(1), of calmEnv] l i
  show ?thesis by blast
qed

text \<open>
  C9 as stated fails twice. In Idle the handler is not a no-op: with the permission
  granted it starts recognition. And pressed twice in a row while Listening it leaves the
  phase Stopping (\<open>isRecording\<close> and \<open>isRecognitionStopping\<close> both set), not Idle.
\<close>

theorem stop_twice_counterexample:
  "\<not> isRecording idleState \<and> \<not> isRecognitionStarting idleState \<and>
   \<not> isRecognitionStopping idleState \<and>
   isRecognitionStarting
     (run [(calmEnv, VoiceButton), (calmEnv, VoiceButtonPermission PermissionGranted)] idleState) \<and>
   recCalls
     (run [(calmEnv, VoiceButton), (calmEnv, VoiceButtonPermission PermissionGranted)] idleState) =
     recCalls idleState @ [RecStart] \<and>
   isRecording (run [(calmEnv, VoiceButton), (calmEnv, VoiceButton)] listeningState) \<and>
   isRecognitionStopping (run [(calmEnv, VoiceButton), (calmEnv, VoiceButton)] listeningState)"
  by code_simp

lemma dispatch_read_muted:
  assumes "ttsMuted s"
    and "action i \<in> {read_injuries, read_transfers, read_achievements, read_market_value}"
  shows "dispatch e i s = s"
  using assms
  by (auto simp: dispatch_def readInjuriesAloud_def readTransfersAloud_def
        readAchievementsAloud_def readMarketValueAloud_def TTSManager_speak_def
        split: option.splits)

text \<open>
  C10. A final transcript arrives while a narration is in progress and is passed on to
  \<^verbatim>\<open>processVoiceCommand\<close>; the barge-in path has called \<^verbatim>\<open>stopReading\<close>, so
  \<open>ttsMuted\<close> is true afterwards. If the transcript parses to one of the four
  section-read intents, dispatching it in that state, or in any later state in which the
  mute is still set, changes nothing: no narration is scheduled, whether or not the
  section's data is present.
\<close>

theorem barge_in_mutes_section_read:
  assumes "isReadingAloud s" and "hasSpeechSynthesis s"
    and "recognition_onresult True rawTranscript s = (s1, Some transcript)"
    and "action (parseVoiceCommandLocal transcript) \<in>
           {read_injuries, read_transfers, read_achievements, read_market_value}"
  shows "ttsMuted s1 \<and> processVoiceCommand_resume e transcript remote s1 = s1 \<and>
         (\<forall>s2. ttsMuted s2 \<longrightarrow> processVoiceCommand_resume e transcript remote s2 = s2)"
proof -
  from assms(1-3) have m: "ttsMuted s1"
    by (auto simp: recognition_onresult_def Let_def stopReading_def processVoiceCommand_begin_def
          speechSynthesis_cancel_def split: if_splits)
  from assms(4) have c: "chosenIntent transcript remote = Some (parseVoiceCommandLocal transcript)"
    by (auto simp: chosenIntent_def Let_def specialActions_def)
  have "\<And>s2. ttsMuted s2 \<Longrightarrow> processVoiceCommand_resume e transcript remote s2 = s2"
    using c assms(4) by (simp add: processVoiceCommand_resume_def dispatch_read_muted)
  with m show ?thesis by blast
qed

theorem barge_in_mutes_section_read_witness:
  "isReadingAloud narratingState \<and> hasSpeechSynthesis narratingState \<and>
   resultSection injuries narratingState = Some (Some 2) \<and>
   action (parseVoiceCommandLocal ''read injuries'') = read_injuries \<and>
   ttsMuted (fst (recognition_onresult True ''read injuries'' narratingState)) \<and>
   processVoiceCommand_resume calmEnv ''read injuries'' RemoteUnavailable
     (fst (recognition_onresult True ''read injuries'' narratingState)) =
     fst (recognition_onresult True ''read injuries'' narratingState)"
proof -
  have h: "isReadingAloud narratingState" "hasSpeechSynthesis narratingState" by code_simp+
  have d: "resultSection injuries narratingState = Some (Some 2)" by code_simp
  have r: "recognition_onresult True ''read injuries'' narratingState =
             (fst (recognition_onresult True ''read injuries'' narratingState), Some ''read injuries'')"
    by code_simp
  have a: "action (parseVoiceCommandLocal ''read injuries'') = read_injuries" by code_simp
  then have a': "action (parseVoiceCommandLocal ''read injuries'') \<in>
           {read_injuries, read_transfers, read_achievements, read_market_value}" by simp
  from barge_in_mutes_section_read [OF h r a', of calmEnv RemoteUnavailable] h d a
  show ?thesis by blast
qed

text \<open>
  C1 as stated fails: \<open>speakingState\<close> is reached from the page load by engine
  callbacks, timer firings and one spoken command, and in it the input controller is
  Listening while the output controller is Speaking.
\<close>

theorem listening_while_speaking_counterexample:
  "isRecording speakingState \<and> isReadingAloud speakingState \<and> isActive speakingState"
  by code_simp

text \<open>
  C1, as far as the source goes. Nothing pauses recognition before a narration, so
  Listening and Speaking can hold together. What is guarded is the debounced restart:
  while \<open>isReadingAloud\<close> is true, none of the three restart callbacks starts
  recognition, the end of a recognition session and a no-speech error schedule no restart
  and call nothing on the engine, and the end-of-narration handler clears
  \<open>isReadingAloud\<close> before it schedules one.
\<close>

theorem restart_not_while_reading:
  assumes "isReadingAloud s"
  shows "restartAfterNoSpeech e s = s \<and> restartAfterEnd e s = s \<and> restartAfterSpeech e s = s \<and>
         timers (recognition_onend s) = timers s \<and>
         timers (recognition_onerror ''no-speech'' s) = timers s \<and>
         recCalls (recognition_onend s) = recCalls s \<and>
         recCalls (recognition_onerror ''no-speech'' s) = recCalls s \<and>
         \<not> isReadingAloud (utterance_onend s)"
  using assms
  by (simp add: restartAfterNoSpeech_def restartAfterEnd_def restartAfterSpeech_def
        recognition_onend_def recognition_onerror_def utterance_onend_def Let_def)

theorem restart_not_while_reading_witness:
  "isReadingAloud speakingState \<and>
   restartAfterEnd calmEnv speakingState = speakingState \<and>
   timers (recognition_onend speakingState) = timers speakingState \<and>
   recCalls (recognition_onend speakingState) = [RecStart]"
proof -
  have h: "isReadingAloud speakingState" by code_simp
  have r: "recCalls speakingState = [RecStart]" by code_simp
  from restart_not_while_reading [OF h, of calmEnv] h r show ?thesis by simp
qed

subsection \<open>The timer invariant\<close>

named_theorems tinv

lemma timersInv_initial: "timersInv (initialState r h)"
  by (simp add: timersInv_def initialState_def isRestartCallback_def)

lemma timersInv_update [simp]:
  "timersInv (isRecording_update f1 s) = timersInv s"
  "timersInv (recognition_update f1 s) = timersInv s"
  "timersInv (currentSpeech_update f2 s) = timersInv s"
  "timersInv (searchResults_update f3 s) = timersInv s"
  "timersInv (autoListening_update f1 s) = timersInv s"
  "timersInv (ttsMuted_update f1 s) = timersInv s"
  "timersInv (userInteracted_update f1 s) = timersInv s"
  "timersInv (isReadingAloud_update f1 s) = timersInv s"
  "timersInv (isRecognitionStarting_update f1 s) = timersInv s"
  "timersInv (isRecognitionStopping_update f1 s) = timersInv s"
  "timersInv (isActive_update f1 s) = timersInv s"
  "timersInv (queue_update f4 s) = timersInv s"
  "timersInv (currentUtterance_update f2 s) = timersInv s"
  "timersInv (hasSpeechSynthesis_update f1 s) = timersInv s"
  "timersInv (synthCalls_update f5 s) = timersInv s"
  "timersInv (recCalls_update f6 s) = timersInv s"
  by (simp_all add: timersInv_def)

lemma timersInv_setTimeout [tinv]:
  "timersInv s \<Longrightarrow> \<not> isRestartCallback cb \<Longrightarrow> timersInv (setTimeout cb d s)"
  by (auto simp: timersInv_def setTimeout_def less_Suc_eq)

lemma timersInv_clearTimeout [tinv]: "timersInv s \<Longrightarrow> timersInv (clearTimeout i s)"
  by (auto simp: timersInv_def clearTimeout_def distinct_map_filter)

lemma no_restart_after_clear:
  assumes "timersInv s"
  shows "pendingRestarts (case restartTimeout s of None \<Rightarrow> s
           | Some i \<Rightarrow> if i = 0 then s else clearTimeout i s) = []"
  using assms
  by (auto simp: timersInv_def pendingRestarts_def clearTimeout_def filter_empty_conv
        split: option.splits)

lemma scheduleRestart_replaces:
  assumes "timersInv s" and "isRestartCallback cb"
  shows "pendingRestarts (scheduleRestart cb d s) = [Timer (nextTimer s) d cb]"
proof -
  let ?s1 = "case restartTimeout s of None \<Rightarrow> s
               | Some i \<Rightarrow> if i = 0 then s else clearTimeout i s"
  have n: "nextTimer ?s1 = nextTimer s"
    by (simp add: clearTimeout_def split: option.splits)
  have "pendingRestarts (scheduleRestart cb d s) = pendingRestarts ?s1 @ [Timer (nextTimer ?s1) d cb]"
    using assms(2) by (simp add: scheduleRestart_def Let_def setTimeout_def pendingRestarts_def)
  with no_restart_after_clear [OF assms(1)] n show ?thesis by simp
qed

lemma timersInv_scheduleRestart [tinv]:
  assumes "timersInv s"
  shows "timersInv (scheduleRestart cb d s)"
proof -
  let ?s1 = "case restartTimeout s of None \<Rightarrow> s
               | Some i \<Rightarrow> if i = 0 then s else clearTimeout i s"
  have i1: "timersInv ?s1" using assms by (simp add: timersInv_clearTimeout split: option.splits)
  have nr: "\<forall>t \<in> set (timers ?s1). \<not> isRestartCallback (callback t)"
    using no_restart_after_clear [OF assms] by (simp add: pendingRestarts_def filter_empty_conv)
  have "scheduleRestart cb d s =
          ?s1\<lparr>timers := timers ?s1 @ [Timer (nextTimer ?s1) d cb],
               nextTimer := Suc (nextTimer ?s1), restartTimeout := Some (nextTimer ?s1)\<rparr>"
    by (simp add: scheduleRestart_def Let_def setTimeout_def)
  with i1 nr show ?thesis
    by (auto simp: timersInv_def less_Suc_eq)
qed

lemma distinct_all_same:
  assumes "distinct xs" and "\<forall>x \<in> set xs. x = a"
  shows "length xs \<le> Suc 0"
proof -
  from assms(2) have "set xs \<subseteq> {a}" by auto
  then have "card (set xs) \<le> card {a}" by (intro card_mono) auto
  with assms(1) show ?thesis by (simp add: distinct_card)
qed

lemma timersInv_at_most_one:
  assumes "timersInv s"
  shows "length (pendingRestarts s) \<le> 1"
proof (cases "pendingRestarts s")
  case Nil
  then show ?thesis by simp
next
  case (Cons t ts)
  then have "t \<in> set (pendingRestarts s)" by simp
  then have "t \<in> set (timers s)" "isRestartCallback (callback t)"
    by (simp_all add: pendingRestarts_def)
  with assms have r: "restartTimeout s = Some (timerId t)" by (simp add: timersInv_def)
  have d: "distinct (map timerId (pendingRestarts s))"
    using assms by (simp add: timersInv_def pendingRestarts_def distinct_map_filter)
  have "\<forall>x \<in> set (map timerId (pendingRestarts s)). x = timerId t"
    using assms r by (auto simp: timersInv_def pendingRestarts_def)
  from distinct_all_same [OF d this] show ?thesis by simp
qed


lemma timersInv_cancel [simp]: "timersInv (speechSynthesis_cancel s) = timersInv s"
  by (simp add: speechSynthesis_cancel_def)

lemma timersInv_speak [tinv]: "timersInv s \<Longrightarrow> timersInv (TTSManager_speak txt b s)"
  by (simp add: TTSManager_speak_def Let_def timersInv_setTimeout isRestartCallback_def)

lemma timersInv_readers [tinv]:
  assumes "timersInv s"
  shows "timersInv (TTSManager_readError msg s)"
    and "timersInv (TTSManager_readPlayerStats r s)"
    and "timersInv (TTSManager_readClubInfo s)"
    and "timersInv (TTSManager_readComparison s)"
    and "timersInv (TTSManager_readFavorites n s)"
    and "timersInv (readInjuriesAloud d s)"
    and "timersInv (readTransfersAloud d s)"
    and "timersInv (readAchievementsAloud d s)"
    and "timersInv (readMarketValueAloud d s)"
    and "timersInv (stopReading s)"
    and "timersInv (speakCallback e txt s)"
  using assms
  by (simp_all add: TTSManager_readError_def TTSManager_readPlayerStats_def
        TTSManager_readClubInfo_def TTSManager_readComparison_def TTSManager_readFavorites_def
        readInjuriesAloud_def readTransfersAloud_def readAchievementsAloud_def
        readMarketValueAloud_def stopReading_def speakCallback_def Let_def timersInv_speak
        split: option.splits)

lemma timersInv_readResultsAloud [tinv]:
  "timersInv s \<Longrightarrow> timersInv (readResultsAloud e s)"
  by (simp add: readResultsAloud_def tinv split: option.splits)

lemma timersInv_safeStart [tinv]:
  "timersInv s \<Longrightarrow> timersInv (snd (safeStartRecognition e s))"
  by (simp add: safeStartRecognition_def Let_def split: startOutcome.splits)

lemma timersInv_input [tinv]:
  assumes "timersInv s"
  shows "timersInv (restartAfterNoSpeech e s)"
    and "timersInv (restartAfterEnd e s)"
    and "timersInv (restartAfterSpeech e s)"
    and "timersInv (recognition_onstart s)"
    and "timersInv (recognition_onerror err s)"
    and "timersInv (recognition_onend s)"
    and "timersInv (fst (recognition_onresult isFinal raw s))"
    and "timersInv (snd (requestMicrophonePermission outcome s))"
    and "timersInv (toggleVoiceRecording e s)"
    and "timersInv (utterance_onstart s)"
    and "timersInv (utterance_onend s)"
    and "timersInv (utterance_onerror err s)"
  using assms
  by (simp_all add: restartAfterNoSpeech_def restartAfterEnd_def restartAfterSpeech_def
        recognition_onstart_def recognition_onerror_def recognition_onend_def
        recognition_onresult_def processVoiceCommand_begin_def requestMicrophonePermission_def
        toggleVoiceRecording_def utterance_onstart_def utterance_onend_def
        utterance_onerror_def Let_def tinv isRestartCallback_def
        split: permissionOutcome.splits)

lemma timersInv_start [tinv]:
  assumes "timersInv s"
  shows "timersInv (toggleVoiceRecording_permission outcome e s)"
    and "timersInv (immediateStartCallback s)"
    and "timersInv (immediateStart_permission outcome s)"
    and "timersInv (retryImmediateCallback s)"
    and "timersInv (immediateSafeStartCallback e s)"
    and "timersInv (startOnInteraction s)"
    and "timersInv (autoStart_permission outcome s)"
    and "timersInv (autoStartCallback e s)"
    and "timersInv (visibilityChange s)"
  using assms
  by (simp_all add: toggleVoiceRecording_permission_def immediateStartCallback_def
        immediateStart_permission_def retryImmediateCallback_def
        immediateSafeStartCallback_def startOnInteraction_def autoStart_permission_def
        autoStartCallback_def visibilityChange_def case_prod_beta tinv isRestartCallback_def)

lemma timersInv_lookups [tinv]:
  assumes "timersInv s"
  shows "timersInv (searchPlayerStats_begin s)"
    and "timersInv (searchPlayerStats_finish outcome s)"
    and "timersInv (readResultsCallback e s)"
    and "timersInv (comparePlayers_finish found s)"
    and "timersInv (showClubAchievements_finish found s)"
    and "timersInv (loadFavorites e s)"
    and "timersInv (searchFormSubmit name s)"
  using assms
  by (simp_all add: searchPlayerStats_begin_def searchPlayerStats_finish_def
        readResultsCallback_def comparePlayers_finish_def showClubAchievements_finish_def
        loadFavorites_def searchFormSubmit_def Let_def tinv isRestartCallback_def
        split: searchOutcome.splits favoritesOutcome.splits)

lemma timersInv_dispatch [tinv]: "timersInv s \<Longrightarrow> timersInv (dispatch e data s)"
  by (simp add: dispatch_def Let_def tinv split: action.splits option.splits)

lemma timersInv_resume [tinv]:
  "timersInv s \<Longrightarrow> timersInv (processVoiceCommand_resume e transcript remote s)"
  by (simp add: processVoiceCommand_resume_def tinv split: option.splits)

lemma timersInv_runTimer [tinv]: "timersInv s \<Longrightarrow> timersInv (runTimer e cb s)"
  by (simp add: runTimer_def tinv split: timerCallback.splits)

lemma timersInv_timerFires [tinv]: "timersInv s \<Longrightarrow> timersInv (timerFires e i s)"
  by (simp add: timerFires_def tinv split: option.splits)

lemma timersInv_step: "timersInv s \<Longrightarrow> timersInv (step e ev s)"
  by (simp add: step_def tinv split: event.splits)

lemma timersInv_run: "timersInv s \<Longrightarrow> timersInv (run tr s)"
  unfolding run_def by (induction tr arbitrary: s) (auto simp: timersInv_step)

text \<open>
  C7. In every state that a sequence of events reaches from the page load, at most one
  debounced restart timer is pending; and scheduling a restart there (from the end of a
  recognition session, from a no-speech error or from the end of a narration) leaves
  exactly the new timer pending as restart timer: whatever restart timer was pending has
  been cancelled and replaced.
\<close>

theorem restart_debounce:
  assumes "s = run tr (initialState hasRecognition hasSynthesis)"
    and "isRestartCallback cb"
  shows "length (pendingRestarts s) \<le> 1 \<and>
         pendingRestarts (scheduleRestart cb d s) = [Timer (nextTimer s) d cb]"
proof -
  have i: "timersInv s"
    unfolding assms(1) by (rule timersInv_run) (rule timersInv_initial)
  from timersInv_at_most_one [OF i] scheduleRestart_replaces [OF i assms(2)]
  show ?thesis by blast
qed

theorem restart_debounce_witness:
  "isRestartCallback RestartAfterEndCb \<and>
   pendingRestarts (run rapidEndTrace (initialState True True)) =
     [Timer 5 2000 RestartAfterNoSpeechCb] \<and>
   length (pendingRestarts (run rapidEndTrace (initialState True True))) \<le> 1 \<and>
   pendingRestarts (recognition_onend (run rapidEndTrace (initialState True True))) =
     [Timer 6 2000 RestartAfterEndCb]"
proof -
  have c: "isRestartCallback RestartAfterEndCb" by code_simp
  have p: "pendingRestarts (run rapidEndTrace (initialState True True)) =
             [Timer 5 2000 RestartAfterNoSpeechCb]" by code_simp
  have e: "recognition_onend (run rapidEndTrace (initialState True True)) =
             scheduleRestart RestartAfterEndCb 2000 (run rapidEndTrace (initialState True True))"
    by code_simp
  have n: "nextTimer (run rapidEndTrace (initialState True True)) = 6" by code_simp
  from restart_debounce [OF refl c, of rapidEndTrace True True 2000] c p e n
  show ?thesis by simp
qed

subsection \<open>Silence while muted\<close>

lemma spoken_update [simp]:
  "spoken (isRecording_update f1 s) = spoken s"
  "spoken (recognition_update f1 s) = spoken s"
  "spoken (currentSpeech_update f2 s) = spoken s"
  "spoken (searchResults_update f3 s) = spoken s"
  "spoken (autoListening_update f1 s) = spoken s"
  "spoken (ttsMuted_update f1 s) = spoken s"
  "spoken (userInteracted_update f1 s) = spoken s"
  "spoken (isReadingAloud_update f1 s) = spoken s"
  "spoken (isRecognitionStarting_update f1 s) = spoken s"
  "spoken (isRecognitionStopping_update f1 s) = spoken s"
  "spoken (restartTimeout_update f7 s) = spoken s"
  "spoken (isActive_update f1 s) = spoken s"
  "spoken (queue_update f4 s) = spoken s"
  "spoken (currentUtterance_update f2 s) = spoken s"
  "spoken (hasSpeechSynthesis_update f1 s) = spoken s"
  "spoken (timers_update f8 s) = spoken s"
  "spoken (nextTimer_update f9 s) = spoken s"
  "spoken (recCalls_update f6 s) = spoken s"
  by (simp_all add: spoken_def)

lemma quiet_prims [simp]:
  "ttsMuted (setTimeout cb d s) = ttsMuted s"
  "spoken (setTimeout cb d s) = spoken s"
  "ttsMuted (clearTimeout i s) = ttsMuted s"
  "spoken (clearTimeout i s) = spoken s"
  "ttsMuted (speechSynthesis_cancel s) = ttsMuted s"
  "spoken (speechSynthesis_cancel s) = spoken s"
  by (simp_all add: setTimeout_def clearTimeout_def speechSynthesis_cancel_def spoken_def)

lemma quiet_readers [simp]:
  "ttsMuted (TTSManager_readError msg s) = ttsMuted s"
  "spoken (TTSManager_readError msg s) = spoken s"
  "ttsMuted (TTSManager_readPlayerStats r s) = ttsMuted s"
  "spoken (TTSManager_readPlayerStats r s) = spoken s"
  "ttsMuted (TTSManager_readClubInfo s) = ttsMuted s"
  "spoken (TTSManager_readClubInfo s) = spoken s"
  "ttsMuted (TTSManager_readComparison s) = ttsMuted s"
  "spoken (TTSManager_readComparison s) = spoken s"
  "ttsMuted (TTSManager_readFavorites n s) = ttsMuted s"
  "spoken (TTSManager_readFavorites n s) = spoken s"
  "ttsMuted (readInjuriesAloud d s) = ttsMuted s"
  "spoken (readInjuriesAloud d s) = spoken s"
  "ttsMuted (readTransfersAloud d s) = ttsMuted s"
  "spoken (readTransfersAloud d s) = spoken s"
  "ttsMuted (readAchievementsAloud d s) = ttsMuted s"
  "spoken (readAchievementsAloud d s) = spoken s"
  "ttsMuted (readMarketValueAloud d s) = ttsMuted s"
  "spoken (readMarketValueAloud d s) = spoken s"
  by (simp_all add: TTSManager_readError_def TTSManager_readPlayerStats_def
        TTSManager_readClubInfo_def TTSManager_readComparison_def TTSManager_readFavorites_def
        readInjuriesAloud_def readTransfersAloud_def readAchievementsAloud_def
        readMarketValueAloud_def split: option.splits)

lemma quiet_readResultsAloud [simp]:
  "ttsMuted (readResultsAloud e s) = ttsMuted s"
  "spoken (readResultsAloud e s) = spoken s"
  by (simp_all add: readResultsAloud_def split: option.splits)

lemma quiet_stopReading [simp]:
  "spoken (stopReading s) = spoken s"
  "ttsMuted s \<Longrightarrow> ttsMuted (stopReading s)"
  by (simp_all add: stopReading_def)

lemma quiet_speakCallback: "ttsMuted s \<Longrightarrow> speakCallback e txt s = s"
  by (simp add: speakCallback_def)

lemma quiet_safeStart [simp]:
  "ttsMuted (snd (safeStartRecognition e s)) = ttsMuted s"
  "spoken (snd (safeStartRecognition e s)) = spoken s"
  by (simp_all add: safeStartRecognition_def Let_def split: startOutcome.splits)

lemma quiet_input [simp]:
  "ttsMuted (restartAfterNoSpeech e s) = ttsMuted s"
  "spoken (restartAfterNoSpeech e s) = spoken s"
  "ttsMuted (restartAfterEnd e s) = ttsMuted s"
  "spoken (restartAfterEnd e s) = spoken s"
  "ttsMuted (restartAfterSpeech e s) = ttsMuted s"
  "spoken (restartAfterSpeech e s) = spoken s"
  "ttsMuted (recognition_onstart s) = ttsMuted s"
  "spoken (recognition_onstart s) = spoken s"
  "ttsMuted (recognition_onerror err s) = ttsMuted s"
  "spoken (recognition_onerror err s) = spoken s"
  "ttsMuted (recognition_onend s) = ttsMuted s"
  "spoken (recognition_onend s) = spoken s"
  "ttsMuted (snd (requestMicrophonePermission outcome s)) = ttsMuted s"
  "spoken (snd (requestMicrophonePermission outcome s)) = spoken s"
  "ttsMuted (toggleVoiceRecording e s) = ttsMuted s"
  "spoken (toggleVoiceRecording e s) = spoken s"
  "ttsMuted (utterance_onstart s) = ttsMuted s"
  "spoken (utterance_onstart s) = spoken s"
  "ttsMuted (utterance_onend s) = ttsMuted s"
  "spoken (utterance_onend s) = spoken s"
  "ttsMuted (utterance_onerror err s) = ttsMuted s"
  "spoken (utterance_onerror err s) = spoken s"
  by (simp_all add: restartAfterNoSpeech_def restartAfterEnd_def restartAfterSpeech_def
        recognition_onstart_def recognition_onerror_def recognition_onend_def
        requestMicrophonePermission_def toggleVoiceRecording_def utterance_onstart_def
        utterance_onend_def utterance_onerror_def Let_def split: permissionOutcome.splits)

lemma quiet_onresult [simp]:
  "spoken (fst (recognition_onresult isFinal raw s)) = spoken s"
  "ttsMuted s \<Longrightarrow> ttsMuted (fst (recognition_onresult isFinal raw s))"
  by (simp_all add: recognition_onresult_def processVoiceCommand_begin_def Let_def)

lemma quiet_start [simp]:
  "ttsMuted (toggleVoiceRecording_permission outcome e s) = ttsMuted s"
  "spoken (toggleVoiceRecording_permission outcome e s) = spoken s"
  "ttsMuted (immediateStartCallback s) = ttsMuted s"
  "spoken (immediateStartCallback s) = spoken s"
  "ttsMuted (immediateStart_permission outcome s) = ttsMuted s"
  "spoken (immediateStart_permission outcome s) = spoken s"
  "ttsMuted (retryImmediateCallback s) = ttsMuted s"
  "spoken (retryImmediateCallback s) = spoken s"
  "ttsMuted (immediateSafeStartCallback e s) = ttsMuted s"
  "spoken (immediateSafeStartCallback e s) = spoken s"
  "ttsMuted (startOnInteraction s) = ttsMuted s"
  "spoken (startOnInteraction s) = spoken s"
  "ttsMuted (autoStart_permission outcome s) = ttsMuted s"
  "spoken (autoStart_permission outcome s) = spoken s"
  "ttsMuted (autoStartCallback e s) = ttsMuted s"
  "spoken (autoStartCallback e s) = spoken s"
  "ttsMuted (visibilityChange s) = ttsMuted s"
  "spoken (visibilityChange s) = spoken s"
  by (simp_all add: toggleVoiceRecording_permission_def immediateStartCallback_def
        immediateStart_permission_def retryImmediateCallback_def
        immediateSafeStartCallback_def startOnInteraction_def autoStart_permission_def
        autoStartCallback_def visibilityChange_def case_prod_beta)

lemma quiet_lookups [simp]:
  "ttsMuted (readResultsCallback e s) = ttsMuted s"
  "spoken (readResultsCallback e s) = spoken s"
  "ttsMuted (loadFavorites e s) = ttsMuted s"
  "spoken (loadFavorites e s) = spoken s"
  "spoken (searchPlayerStats_begin s) = spoken s"
  "spoken (searchPlayerStats_finish outcome s) = spoken s"
  "spoken (comparePlayers_finish found s) = spoken s"
  "spoken (showClubAchievements_finish found s) = spoken s"
  "spoken (searchFormSubmit name s) = spoken s"
  by (simp_all add: readResultsCallback_def loadFavorites_def searchPlayerStats_begin_def
        searchPlayerStats_finish_def comparePlayers_finish_def showClubAchievements_finish_def
        searchFormSubmit_def Let_def split: favoritesOutcome.splits searchOutcome.splits)

lemma quiet_dispatch_spoken [simp]: "spoken (dispatch e data s) = spoken s"
  by (simp add: dispatch_def Let_def split: action.splits option.splits)

lemma quiet_dispatch_muted:
  assumes "ttsMuted s"
    and "action data \<noteq> resume_speaking"
    and "\<not> ((action data = search_player \<or> action data = other_action) \<and>
            truthy (map_option trim (playerName data)))"
  shows "ttsMuted (dispatch e data s)"
  using assms by (cases "action data") (simp_all add: dispatch_def Let_def split: option.splits)

lemma quiet_runTimer:
  "ttsMuted s \<Longrightarrow> ttsMuted (runTimer e cb s) \<and> spoken (runTimer e cb s) = spoken s"
  by (simp add: runTimer_def quiet_speakCallback split: timerCallback.splits)

lemma quiet_timerFires:
  "ttsMuted s \<Longrightarrow> ttsMuted (timerFires e i s) \<and> spoken (timerFires e i s) = spoken s"
  using quiet_runTimer [of "clearTimeout i s" e]
  by (simp add: timerFires_def split: option.splits)

lemma quiet_step:
  assumes "ttsMuted s" and "\<not> unmutes ev"
  shows "ttsMuted (step e ev s) \<and> spoken (step e ev s) = spoken s"
proof (cases ev)
  case (TimerFires i)
  with assms(1) show ?thesis by (simp add: step_def quiet_timerFires)
next
  case (ParseCommandResponse transcript remote)
  with assms show ?thesis
    by (auto simp: step_def unmutes_def processVoiceCommand_resume_def
          intro!: quiet_dispatch_muted split: option.splits)
next
  case (SearchFinished outcome)
  with assms show ?thesis
    by (simp add: step_def unmutes_def searchPlayerStats_finish_def split: searchOutcome.splits)
qed (use assms in \<open>simp_all add: step_def unmutes_def searchFormSubmit_def
       comparePlayers_finish_def showClubAchievements_finish_def\<close>)

text \<open>
  C4, as the source implements it. Once \<open>ttsMuted\<close> is set (for instance by a
  dispatched \<open>stop_speaking\<close>), it stays set and no narration is handed to the
  synthesis engine by any sequence of events, until an event runs
  \<^verbatim>\<open>ttsMuted = false\<close>. Those events (\<open>unmutes\<close>) are the dispatch of
  \<open>resume_speaking\<close>, the start of a player lookup (\<^verbatim>\<open>searchPlayerStats\<close> unmutes
  on entry, before the outcome is known) and the success of a player, comparison or club
  lookup.
\<close>

theorem mute_persistence:
  assumes "ttsMuted s" and "\<forall>x \<in> set tr. \<not> unmutes (snd x)"
  shows "ttsMuted (run tr s) \<and> spoken (run tr s) = spoken s"
  using assms
proof (induction tr arbitrary: s)
  case Nil
  then show ?case by (simp add: run_def)
next
  case (Cons x tr)
  obtain e ev where x: "x = (e, ev)" by (cases x)
  from Cons.prems x have "ttsMuted (step e ev s) \<and> spoken (step e ev s) = spoken s"
    by (simp add: quiet_step)
  moreover from Cons.prems have "\<forall>y \<in> set tr. \<not> unmutes (snd y)" by simp
  ultimately have "ttsMuted (run tr (step e ev s)) \<and>
                   spoken (run tr (step e ev s)) = spoken s"
    using Cons.IH [of "step e ev s"] by simp
  with x show ?case by (simp add: run_def)
qed

theorem mute_persistence_witness:
  "ttsMuted mutedState \<and> list_all (\<lambda>x. \<not> unmutes (snd x)) mutedQuietTrace \<and>
   ttsMuted (run mutedQuietTrace mutedState) \<and>
   spoken (run mutedQuietTrace mutedState) = []"
proof -
  have m: "ttsMuted mutedState" by code_simp
  have l: "list_all (\<lambda>x. \<not> unmutes (snd x)) mutedQuietTrace" by code_simp
  then have q: "\<forall>x \<in> set mutedQuietTrace. \<not> unmutes (snd x)" by (simp add: list_all_iff)
  have n: "spoken mutedState = []" by code_simp
  from mute_persistence [OF m q] m l n show ?thesis by simp
qed

text \<open>
  C4 as stated fails: after the dispatched \<open>stop_speaking\<close> of \<open>mutedState\<close> the
  user asks for a player; the intent dispatched is \<open>search_player\<close>, the lookup
  unmutes on entry and then fails, and its error message is narrated, although no
  \<open>resume_speaking\<close> was dispatched and no lookup succeeded.
\<close>

theorem failed_lookup_narrates_counterexample:
  "ttsMuted mutedState \<and> spoken mutedState = [] \<and>
   chosenIntent ''messi'' RemoteUnavailable =
     Some ((justAction search_player)\<lparr>playerName := Some ''messi''\<rparr>) \<and>
   spoken (run failedLookupTrace mutedState) =
     [Text ''Error: Failed to fetch. Please try again.'']"
  by code_simp

end
